theory Spec2Isabelle
  imports Complex_Main "HOL-Library.Monad_Syntax"
begin

section \<open>Circuit model: the wellness-milestone and peer-support circuits\<close>

text \<open>
  Signals are modelled as integers: the application values handed to the circuit.
  The TypeScript interfaces \<open>WellnessPrivateInputs\<close> and \<open>WellnessPublicInputs\<close> carry
  the same fields as the circuit's private and public input signals.
\<close>

record WellnessPrivateInputs =
  mentalHealthScore :: int
  sessionCount :: int
  consistencyDays :: int
  moodImprovementScore :: int
  userPrivateKey :: string
  sessionTimestamps :: "int list"
  dailyMoodScores :: "int list"

record WellnessPublicInputs =
  minWellnessThreshold :: int
  minSessionRequirement :: int
  minConsistencyDays :: int
  minImprovementPercent :: int
  milestoneType :: int
  verificationTimestamp :: int

text \<open>
  Modelled from the spec: the comparator \<open>GreaterEqThan(n)\<close> comes from the included
  library file \<open>circomlib/circuits/comparators.circom\<close>, which is not part of the
  repository. The spec describes it as a fixed-width, range-checked comparator: on
  two values that fit in \<open>n\<close> bits it outputs 1 when the first is at least the second
  and 0 otherwise; a value outside the representable range is rejected, never
  truncated, so there is no output signal (\<open>None\<close>).
\<close>

definition GreaterEqThan :: "nat \<Rightarrow> int \<Rightarrow> int \<Rightarrow> int option" where
  "GreaterEqThan n a b =
     (if 0 \<le> a \<and> a < 2 ^ n \<and> 0 \<le> b \<and> b < 2 ^ n
      then Some (if b \<le> a then 1 else 0)
      else None)"

text \<open>
  Modelled from the spec: the gate \<open>AND()\<close> is a library template as well
  (logical AND of two 0/1 signals, the product of its inputs).
\<close>

definition AND :: "int \<Rightarrow> int \<Rightarrow> int" where
  "AND a b = a * b"

text \<open>
  The output signal \<open>milestoneAchieved\<close> of template \<open>WellnessMilestoneProof\<close>: four
  8-bit comparators, wired pairwise into \<open>milestoneAnd1\<close> and \<open>milestoneAnd2\<close>, whose
  outputs feed \<open>finalAnd\<close>. The hash outputs and the statistics components
  (\<open>Average\<close>, \<open>FrequencyAnalyzer\<close>, \<open>TrendAnalysis\<close>) do not feed this signal.
\<close>

definition milestoneAchieved ::
  "WellnessPrivateInputs \<Rightarrow> WellnessPublicInputs \<Rightarrow> int option" where
  "milestoneAchieved priv pub = do {
     wellnessCheck \<leftarrow> GreaterEqThan 8 (mentalHealthScore priv) (minWellnessThreshold pub);
     sessionCheck \<leftarrow> GreaterEqThan 8 (sessionCount priv) (minSessionRequirement pub);
     consistencyCheck \<leftarrow> GreaterEqThan 8 (consistencyDays priv) (minConsistencyDays pub);
     improvementCheck \<leftarrow> GreaterEqThan 8 (moodImprovementScore priv) (minImprovementPercent pub);
     let milestoneAnd1 = AND wellnessCheck sessionCheck;
     let milestoneAnd2 = AND consistencyCheck improvementCheck;
     let finalAnd = AND milestoneAnd1 milestoneAnd2;
     Some finalAnd
   }"

text \<open>
  The inputs a proof can be produced for: every compared value fits the 8-bit
  comparators.
\<close>

definition fits8 :: "int \<Rightarrow> bool" where
  "fits8 v = (0 \<le> v \<and> v < 256)"

definition wellness_in_range :: "WellnessPrivateInputs \<Rightarrow> WellnessPublicInputs \<Rightarrow> bool" where
  "wellness_in_range priv pub =
     (fits8 (mentalHealthScore priv) \<and> fits8 (minWellnessThreshold pub) \<and>
      fits8 (sessionCount priv) \<and> fits8 (minSessionRequirement pub) \<and>
      fits8 (consistencyDays priv) \<and> fits8 (minConsistencyDays pub) \<and>
      fits8 (moodImprovementScore priv) \<and> fits8 (minImprovementPercent pub))"

text \<open>Sample inputs: the spec's Scenario A.\<close>

definition scenarioA_private :: "int \<Rightarrow> WellnessPrivateInputs" where
  "scenarioA_private score =
     \<lparr> mentalHealthScore = score, sessionCount = 12, consistencyDays = 40,
       moodImprovementScore = 30, userPrivateKey = ''secret'',
       sessionTimestamps = replicate 30 0, dailyMoodScores = replicate 30 50 \<rparr>"

definition scenarioA_public :: "int \<Rightarrow> WellnessPublicInputs" where
  "scenarioA_public minScore =
     \<lparr> minWellnessThreshold = minScore, minSessionRequirement = 10, minConsistencyDays = 30,
       minImprovementPercent = 20, milestoneType = 1, verificationTimestamp = 1700000000 \<rparr>"

text \<open>A thrown error with its message.\<close>

datatype error = Error string








section \<open>Aggregation engine: class PrivacyPreservingAnalytics\<close>

text \<open>
  The metric records. The TypeScript fields are of type \<open>number\<close>; \<open>BigInt(x)\<close> accepts
  only integral numbers, so the metric values are integers here. Ciphertexts are
  \<open>bigint\<close> values, timestamps are milliseconds. Field names that several interfaces
  share are told apart: \<open>sessionsAttended\<close> and \<open>reportedAt\<close> are the fields
  \<open>sessionCount\<close> and \<open>timestamp\<close> of \<open>UserMentalHealthMetrics\<close>, and \<open>encUserId\<close>
  and \<open>encTimestamp\<close> are \<open>userId\<close> and \<open>timestamp\<close> of \<open>EncryptedUserMetrics\<close>.
\<close>

record UserMentalHealthMetrics =
  userId :: string
  moodScore :: int
  sessionsAttended :: int
  engagementTime :: int
  wellnessScore :: int
  crisisEvents :: int
  reportedAt :: int

record EncryptedUserMetrics =
  encUserId :: string
  encryptedMoodScore :: int
  encryptedSessionCount :: int
  encryptedEngagementTime :: int
  encryptedWellnessScore :: int
  encryptedCrisisEvents :: int
  encTimestamp :: int

record AggregatedMetrics =
  userCount :: nat
  averageMoodScore :: real
  totalSessions :: real
  averageEngagementTime :: real
  averageWellnessScore :: real
  totalCrisisEvents :: real
  aggregationTimestamp :: int

text \<open>
  The key pair held in \<open>this.paillier\<close>, an object of the external library
  \<open>paillier-bigint\<close>: the three methods the class calls, and the public modulus.
  Encryption is randomised; the nonce it draws is the first argument of
  \<open>publicKey_encrypt\<close>.
\<close>

record PaillierKeyPair =
  modulus :: int
  publicKey_encrypt :: "int \<Rightarrow> int \<Rightarrow> int"
  publicKey_addition :: "int \<Rightarrow> int \<Rightarrow> int"
  privateKey_decrypt :: "int \<Rightarrow> int"

text \<open>
  The contract of an additively homomorphic key pair, relative to the nonces
  encryption may draw and to the space of well-formed ciphertexts: encryption with
  such a nonce gives a well-formed ciphertext that decrypts to the plaintext's
  residue of the modulus, and the homomorphic sum of two well-formed ciphertexts
  is well-formed and decrypts to the sum of their decryptions modulo the modulus.
\<close>

definition additively_homomorphic :: "PaillierKeyPair \<Rightarrow> int set \<Rightarrow> int set \<Rightarrow> bool" where
  "additively_homomorphic k nonces ciphertexts =
     (0 < modulus k \<and>
      (\<forall>r\<in>nonces. \<forall>m.
         publicKey_encrypt k r m \<in> ciphertexts \<and>
         privateKey_decrypt k (publicKey_encrypt k r m) = m mod modulus k) \<and>
      (\<forall>c\<in>ciphertexts. \<forall>d\<in>ciphertexts.
         publicKey_addition k c d \<in> ciphertexts \<and>
         privateKey_decrypt k (publicKey_addition k c d) =
           (privateKey_decrypt k c + privateKey_decrypt k d) mod modulus k))"

text \<open>
  The Paillier scheme itself, for a modulus \<open>n\<close> (a product of two primes), the
  generator \<open>n + 1\<close>, the private exponent \<open>lam\<close> and its inverse \<open>mu\<close> modulo \<open>n\<close>:
  a ciphertext is \<open>g^m r^n\<close> modulo \<open>n^2\<close>, the homomorphic sum is the product modulo
  \<open>n^2\<close>, and decryption is \<open>L(c^lam mod n^2) mu mod n\<close> with \<open>L(x) = (x - 1) / n\<close>.
  Nonces are the integers coprime to \<open>n\<close>, well-formed ciphertexts the residues of
  \<open>n^2\<close> coprime to \<open>n\<close>.
\<close>

definition paillierKeys :: "int \<Rightarrow> nat \<Rightarrow> int \<Rightarrow> PaillierKeyPair" where
  "paillierKeys n lam mu =
     \<lparr> modulus = n,
       publicKey_encrypt = (\<lambda>r m. ((n + 1) ^ nat (m mod n) * r ^ nat n) mod (n * n)),
       publicKey_addition = (\<lambda>c d. (c * d) mod (n * n)),
       privateKey_decrypt = (\<lambda>c. ((c ^ lam mod (n * n) - 1) div n * mu) mod n) \<rparr>"

definition paillierNonces :: "int \<Rightarrow> int set" where
  "paillierNonces n = {r. gcd r n = 1}"

definition paillierCiphertexts :: "int \<Rightarrow> int set" where
  "paillierCiphertexts n = {c. 0 \<le> c \<and> c < n * n \<and> gcd c n = 1}"

text \<open>
  JavaScript numbers are IEEE 754 doubles. \<open>roundDouble\<close> rounds a real to the
  nearest double, ties to the even significand: the significand has 53 bits, so
  the spacing of the doubles around \<open>x\<close> is \<open>2^(e - 52)\<close> for the binary exponent
  \<open>e\<close> of \<open>x\<close>. \<open>Number(z)\<close> of a \<open>bigint\<close> and the quotient \<open>a / b\<close> of two numbers
  are the exact results rounded so. The model covers the finite, normal range:
  results of magnitude \<open>2^1024\<close> and more, which JavaScript gives as \<open>Infinity\<close>,
  results below \<open>2^(-1022)\<close> and a divisor 0 are outside it.
\<close>

definition roundHalfEven :: "real \<Rightarrow> int" where
  "roundHalfEven m =
     (let f = \<lfloor>m\<rfloor>; d = m - of_int f
      in if d < 1 / 2 then f else if 1 / 2 < d then f + 1 else if even f then f else f + 1)"

definition roundDouble :: "real \<Rightarrow> real" where
  "roundDouble x =
     (if x = 0 then 0
      else let e = \<lfloor>log 2 \<bar>x\<bar>\<rfloor>;
               ulp = 2 powr of_int (e - 52)
           in of_int (roundHalfEven (x / ulp)) * ulp)"

definition Number_of_bigint :: "int \<Rightarrow> real" where
  "Number_of_bigint z = roundDouble (of_int z)"

definition jsDivide :: "real \<Rightarrow> real \<Rightarrow> real" where
  "jsDivide a b = roundDouble (a / b)"

text \<open>A \<open>bigint\<close> whose conversion to a number stays finite.\<close>

definition finiteAsNumber :: "int \<Rightarrow> bool" where
  "finiteAsNumber z = (\<bar>z\<bar> < 2 ^ 1023)"

text \<open>The nonces of the five encryptions of one call of \<open>encryptUserMetrics\<close>.\<close>

record EncryptionNonces =
  nonceMood :: int
  nonceSessions :: int
  nonceEngagement :: int
  nonceWellness :: int
  nonceCrisis :: int

definition encryptUserMetrics ::
  "PaillierKeyPair \<Rightarrow> EncryptionNonces \<Rightarrow> UserMentalHealthMetrics \<Rightarrow> EncryptedUserMetrics" where
  "encryptUserMetrics k rnd metrics =
     \<lparr> encUserId = userId metrics,
       encryptedMoodScore = publicKey_encrypt k (nonceMood rnd) (moodScore metrics),
       encryptedSessionCount = publicKey_encrypt k (nonceSessions rnd) (sessionsAttended metrics),
       encryptedEngagementTime = publicKey_encrypt k (nonceEngagement rnd) (engagementTime metrics),
       encryptedWellnessScore = publicKey_encrypt k (nonceWellness rnd) (wellnessScore metrics),
       encryptedCrisisEvents = publicKey_encrypt k (nonceCrisis rnd) (crisisEvents metrics),
       encTimestamp = reportedAt metrics \<rparr>"

text \<open>The five running totals of the aggregation loop.\<close>

record EncryptedTotals =
  totalEncryptedMood :: int
  totalEncryptedSessions :: int
  totalEncryptedEngagement :: int
  totalEncryptedWellness :: int
  totalEncryptedCrisis :: int

definition initialTotals :: "EncryptedUserMetrics \<Rightarrow> EncryptedTotals" where
  "initialTotals first =
     \<lparr> totalEncryptedMood = encryptedMoodScore first,
       totalEncryptedSessions = encryptedSessionCount first,
       totalEncryptedEngagement = encryptedEngagementTime first,
       totalEncryptedWellness = encryptedWellnessScore first,
       totalEncryptedCrisis = encryptedCrisisEvents first \<rparr>"

definition addMetric :: "PaillierKeyPair \<Rightarrow> EncryptedUserMetrics \<Rightarrow> EncryptedTotals \<Rightarrow> EncryptedTotals" where
  "addMetric k metric t =
     \<lparr> totalEncryptedMood = publicKey_addition k (totalEncryptedMood t) (encryptedMoodScore metric),
       totalEncryptedSessions = publicKey_addition k (totalEncryptedSessions t) (encryptedSessionCount metric),
       totalEncryptedEngagement = publicKey_addition k (totalEncryptedEngagement t) (encryptedEngagementTime metric),
       totalEncryptedWellness = publicKey_addition k (totalEncryptedWellness t) (encryptedWellnessScore metric),
       totalEncryptedCrisis = publicKey_addition k (totalEncryptedCrisis t) (encryptedCrisisEvents metric) \<rparr>"

text \<open>
  A call of \<open>privateKey.decrypt\<close>: the plaintext, and the log of ciphertexts handed to
  the private key so far, extended by this one.
\<close>

definition decryptLogged :: "PaillierKeyPair \<Rightarrow> int \<Rightarrow> int list \<Rightarrow> int \<times> int list" where
  "decryptLogged k c calls = (privateKey_decrypt k c, calls @ [c])"

text \<open>
  \<open>aggregateEncryptedMetrics\<close>: an empty list throws; otherwise the totals start from
  entry 0, the loop adds entries 1, 2, ... homomorphically, and the five totals are
  decrypted, converted by \<open>Number(...)\<close> and divided as JavaScript numbers. The
  result is paired with the log of the decryption calls made.
\<close>

definition aggregateEncryptedMetrics ::
  "PaillierKeyPair \<Rightarrow> int \<Rightarrow> EncryptedUserMetrics list \<Rightarrow> error + (AggregatedMetrics \<times> int list)" where
  "aggregateEncryptedMetrics k now encryptedMetrics =
     (case encryptedMetrics of
        [] \<Rightarrow> Inl (Error ''No metrics to aggregate'')
      | first # rest \<Rightarrow>
          let t = fold (addMetric k) rest (initialTotals first);
              userCount = length encryptedMetrics;
              (totalMoodScore, calls1) = decryptLogged k (totalEncryptedMood t) [];
              (totalSessions, calls2) = decryptLogged k (totalEncryptedSessions t) calls1;
              (totalEngagement, calls3) = decryptLogged k (totalEncryptedEngagement t) calls2;
              (totalWellness, calls4) = decryptLogged k (totalEncryptedWellness t) calls3;
              (totalCrisis, calls5) = decryptLogged k (totalEncryptedCrisis t) calls4
          in Inr (\<lparr> userCount = userCount,
                     averageMoodScore = jsDivide (Number_of_bigint totalMoodScore) (of_nat userCount),
                     totalSessions = Number_of_bigint totalSessions,
                     averageEngagementTime = jsDivide (Number_of_bigint totalEngagement) (of_nat userCount),
                     averageWellnessScore = jsDivide (Number_of_bigint totalWellness) (of_nat userCount),
                     totalCrisisEvents = Number_of_bigint totalCrisis,
                     aggregationTimestamp = now \<rparr>, calls5))"

text \<open>
  A second, simpler additively homomorphic key pair for concrete runs: a ciphertext
  is the plaintext plus a multiple of the modulus chosen by the nonce, addition of
  ciphertexts is integer addition, and decryption reduces modulo the modulus.
\<close>

definition maskingKeys :: "int \<Rightarrow> PaillierKeyPair" where
  "maskingKeys n =
     \<lparr> modulus = n,
       publicKey_encrypt = (\<lambda>r m. m + r * n),
       publicKey_addition = (\<lambda>c d. c + d),
       privateKey_decrypt = (\<lambda>c. c mod n) \<rparr>"

definition sampleNonces :: "int \<Rightarrow> EncryptionNonces" where
  "sampleNonces r =
     \<lparr> nonceMood = r, nonceSessions = r + 1, nonceEngagement = r + 2,
       nonceWellness = r + 3, nonceCrisis = r + 4 \<rparr>"

definition sampleMetrics :: "string \<Rightarrow> int \<Rightarrow> UserMentalHealthMetrics" where
  "sampleMetrics uid mood =
     \<lparr> userId = uid, moodScore = mood, sessionsAttended = 4, engagementTime = 30,
       wellnessScore = 70, crisisEvents = 1, reportedAt = 1700000000 \<rparr>"

text \<open>
  The plaintext sum of one metric field over a list of users, and the declared
  domain of the aggregation: each of the five sums is a residue of the key pair's
  modulus and a safe integer of JavaScript (below \<open>2^53\<close>). The nonces of a call of
  \<open>encryptUserMetrics\<close> are valid when all five are nonces of the scheme.
\<close>

definition fieldSum :: "(UserMentalHealthMetrics \<Rightarrow> int) \<Rightarrow> UserMentalHealthMetrics list \<Rightarrow> int" where
  "fieldSum f ms = sum_list (map f ms)"

definition sums_in_range :: "PaillierKeyPair \<Rightarrow> UserMentalHealthMetrics list \<Rightarrow> bool" where
  "sums_in_range k ms =
     (list_all (\<lambda>f. 0 \<le> fieldSum f ms \<and> fieldSum f ms < modulus k \<and> fieldSum f ms < 2 ^ 53)
        [moodScore, sessionsAttended, engagementTime, wellnessScore, crisisEvents])"

definition noncesIn :: "int set \<Rightarrow> EncryptionNonces \<Rightarrow> bool" where
  "noncesIn nonces rnd =
     (nonceMood rnd \<in> nonces \<and> nonceSessions rnd \<in> nonces \<and> nonceEngagement rnd \<in> nonces \<and>
      nonceWellness rnd \<in> nonces \<and> nonceCrisis rnd \<in> nonces)"

text \<open>
  The homomorphic sum of one ciphertext field over a non-empty list of encrypted
  records: the field of the first record, with those of the others added in order.
\<close>

definition homomorphicSum ::
  "PaillierKeyPair \<Rightarrow> (EncryptedUserMetrics \<Rightarrow> int) \<Rightarrow> EncryptedUserMetrics \<Rightarrow>
     EncryptedUserMetrics list \<Rightarrow> int" where
  "homomorphicSum k field first rest =
     foldl (publicKey_addition k) (field first) (map field rest)"

text \<open>
  The lists on which the numbers of the result stay in the range of the model of
  JavaScript numbers: a JavaScript array, so of fewer than \<open>2^32\<close> entries, whose
  five decrypted sums are finite as numbers.
\<close>

definition withinNumberRange ::
  "PaillierKeyPair \<Rightarrow> EncryptedUserMetrics \<Rightarrow> EncryptedUserMetrics list \<Rightarrow> bool" where
  "withinNumberRange k first rest =
     (length (first # rest) < 2 ^ 32 \<and>
      list_all (\<lambda>field. finiteAsNumber (privateKey_decrypt k (homomorphicSum k field first rest)))
        [encryptedMoodScore, encryptedSessionCount, encryptedEngagementTime,
         encryptedWellnessScore, encryptedCrisisEvents])"

text \<open>
  A Paillier key pair for concrete runs: the primes 17 and 19, so the modulus 323,
  the private exponent 144 = lcm(16, 18) and its inverse 83 modulo 323.
\<close>

definition smallPaillier :: PaillierKeyPair where
  "smallPaillier = paillierKeys 323 144 83"

text \<open>The three users of the spec's Scenario B, with mood scores 60, 80 and 100.\<close>

definition scenarioB_metrics :: "UserMentalHealthMetrics list" where
  "scenarioB_metrics =
     [sampleMetrics ''u1'' 60, sampleMetrics ''u2'' 80, sampleMetrics ''u3'' 100]"

definition scenarioB_nonces :: "EncryptionNonces list" where
  "scenarioB_nonces = [sampleNonces 1, sampleNonces 7, sampleNonces 20]"

text \<open>
  Two entries encrypted under two different key pairs (moduli 1000 and 7), handed
  to an engine that holds the first key pair.
\<close>

definition mixedKeyMetrics :: "EncryptedUserMetrics list" where
  "mixedKeyMetrics =
     [encryptUserMetrics (maskingKeys 1000) (sampleNonces 2) (sampleMetrics ''u1'' 60),
      encryptUserMetrics (maskingKeys 7) (sampleNonces 3) (sampleMetrics ''u2'' 80)]"

section \<open>Differentially private release\<close>

text \<open>
  JavaScript numbers are taken as reals. Each call of \<open>Math.random()\<close> is an explicit
  argument: the uniform draw from [0, 1) it returns. The fields \<open>lowerBound\<close> and
  \<open>upperBound\<close> are \<open>lower\<close> and \<open>upper\<close> of \<open>ConfidenceInterval\<close>, and
  \<open>releaseTimestamp\<close> is \<open>timestamp\<close> of \<open>DifferentialPrivateInsights\<close>.
\<close>

record ConfidenceInterval =
  lowerBound :: real
  upperBound :: real
  confidence :: real

record DifferentialPrivateInsights =
  noisyAverageMood :: real
  noisyAverageWellness :: real
  noisyTotalSessions :: real
  noisyCrisisRate :: real
  privacyBudgetUsed :: real
  confidenceInterval :: ConfidenceInterval
  releaseTimestamp :: int

text \<open>Class \<open>LaplaceMechanism\<close>: its only field is \<open>epsilon\<close>.\<close>

record LaplaceMechanism =
  epsilon :: real

definition sampleLaplace :: "real \<Rightarrow> real \<Rightarrow> real \<Rightarrow> real" where
  "sampleLaplace random location scale =
     (let u = random - 0.5
      in location - scale * sgn u * ln (1 - 2 * \<bar>u\<bar>))"

definition addNoise :: "LaplaceMechanism \<Rightarrow> real \<Rightarrow> real \<Rightarrow> real" where
  "addNoise mech random v =
     (let scale = 1 / epsilon mech;
          noise = sampleLaplace random 0 scale
      in v + noise)"

definition calculateConfidenceInterval :: "real \<Rightarrow> ConfidenceInterval" where
  "calculateConfidenceInterval eps =
     (let variance = 2 / (eps * eps);
          standardError = sqrt variance
      in \<lparr> lowerBound = - 1.96 * standardError,
           upperBound = 1.96 * standardError,
           confidence = 0.95 \<rparr>)"

text \<open>\<open>Math.round\<close>: the nearest integer, halves rounded up.\<close>

definition Math_round :: "real \<Rightarrow> real" where
  "Math_round x = of_int \<lfloor>x + 1 / 2\<rfloor>"

text \<open>The four uniform draws of one call, in the order the noise is added.\<close>

record NoiseDraws =
  drawMood :: real
  drawWellness :: real
  drawSessions :: real
  drawCrisis :: real

text \<open>
  \<open>generateDifferentialPrivateInsights\<close>. The parameter \<open>epsilon\<close> has the default 1.0:
  \<open>None\<close> is a call that leaves it out. The method keeps no state and has no failing
  branch.
\<close>

definition generateDifferentialPrivateInsights ::
  "AggregatedMetrics \<Rightarrow> real option \<Rightarrow> NoiseDraws \<Rightarrow> int \<Rightarrow> DifferentialPrivateInsights" where
  "generateDifferentialPrivateInsights aggregatedMetrics epsilonArg draws now =
     (let eps = (case epsilonArg of None \<Rightarrow> 1.0 | Some e \<Rightarrow> e);
          laplaceMechanism = \<lparr> epsilon = eps \<rparr>
      in \<lparr> noisyAverageMood =
             addNoise laplaceMechanism (drawMood draws) (averageMoodScore aggregatedMetrics),
           noisyAverageWellness =
             addNoise laplaceMechanism (drawWellness draws) (averageWellnessScore aggregatedMetrics),
           noisyTotalSessions =
             Math_round (addNoise laplaceMechanism (drawSessions draws) (totalSessions aggregatedMetrics)),
           noisyCrisisRate =
             addNoise laplaceMechanism (drawCrisis draws)
               (totalCrisisEvents aggregatedMetrics / of_nat (userCount aggregatedMetrics)),
           privacyBudgetUsed = eps,
           confidenceInterval = calculateConfidenceInterval eps,
           releaseTimestamp = now \<rparr>)"

text \<open>
  A sequence of release calls by one consumer against one aggregate: each call
  names its epsilon and consumes its own draws.
\<close>

record ReleaseCall =
  requestedEpsilon :: "real option"
  noiseDraws :: NoiseDraws

definition effectiveEpsilon :: "ReleaseCall \<Rightarrow> real" where
  "effectiveEpsilon c = (case requestedEpsilon c of None \<Rightarrow> 1.0 | Some e \<Rightarrow> e)"

definition releaseAll ::
  "AggregatedMetrics \<Rightarrow> int \<Rightarrow> ReleaseCall list \<Rightarrow> DifferentialPrivateInsights list" where
  "releaseAll aggregatedMetrics now calls =
     map (\<lambda>c. generateDifferentialPrivateInsights aggregatedMetrics
                 (requestedEpsilon c) (noiseDraws c) now) calls"

definition epsilonSpent :: "DifferentialPrivateInsights list \<Rightarrow> real" where
  "epsilonSpent releases = sum_list (map privacyBudgetUsed releases)"

text \<open>The spec's Scenario B aggregate and Scenario D calls (epsilon 0.6 each).\<close>

definition scenarioB_aggregate :: AggregatedMetrics where
  "scenarioB_aggregate =
     \<lparr> userCount = 3, averageMoodScore = 80, totalSessions = 12,
       averageEngagementTime = 30, averageWellnessScore = 70,
       totalCrisisEvents = 3, aggregationTimestamp = 0 \<rparr>"

definition scenarioD_call :: ReleaseCall where
  "scenarioD_call =
     \<lparr> requestedEpsilon = Some 0.6,
       noiseDraws = \<lparr> drawMood = 0.5, drawWellness = 0.25, drawSessions = 0.75, drawCrisis = 0.5 \<rparr> \<rparr>"

section \<open>Proof service: class AdvancedZKProofService\<close>

text \<open>
  The Groth16 proof object of \<open>snarkjs\<close>, a loaded circuit (the two artifacts are
  opaque blobs), and the remaining TypeScript interfaces. A verification key is an
  opaque blob as well. Where two interfaces share a field name, the fields of the
  peer-support one carry the prefix \<open>peer\<close> and those of a batch result the prefix
  \<open>result\<close>; \<open>zkProof\<close> is the field \<open>proof\<close> and \<open>proofMilestoneAchieved\<close> the
  field \<open>milestoneAchieved\<close> of \<open>WellnessZKProof\<close>. A field read from a public signal
  that may be \<open>undefined\<close> is an option.
\<close>

record Groth16Proof =
  pi_a :: "string list"
  pi_b :: "string list list"
  pi_c :: "string list"

record Circuit =
  wasm :: string
  zkey :: string

record PeerSupportPrivateInputs =
  supporterExperience :: int
  supporterWellnessScore :: int
  supportHistory :: "int list"
  supporterPrivateKey :: string

record PeerSupportRequirements =
  minExperienceRequired :: int
  minWellnessForSupport :: int
  supportQualityThreshold :: int

record WellnessZKProof =
  zkProof :: Groth16Proof
  publicSignals :: "string list"
  proofMilestoneAchieved :: bool
  achievementHash :: "string option"
  consistencyProof :: "string option"
  improvementProof :: "string option"
  privacyScore :: "int option"
  isValid :: bool
  timestamp :: int

record PeerSupportZKProof =
  peerZkProof :: Groth16Proof
  peerPublicSignals :: "string list"
  canProvideSupport :: bool
  supportQualityScore :: "int option"
  anonymousCredential :: "string option"
  peerIsValid :: bool
  peerTimestamp :: int

text \<open>The object \<open>circuitInputs\<close> handed to the prover, one shape per circuit.\<close>

datatype CircuitInputs =
  WellnessCircuitInputs WellnessPrivateInputs WellnessPublicInputs
| PeerSupportCircuitInputs PeerSupportPrivateInputs PeerSupportRequirements

text \<open>
  What the service calls outside itself: the prover and the verifier of \<open>snarkjs\<close>,
  either of which may throw, and the SHA-256 digest of the JSON text of a request,
  which \<open>generateCacheKey\<close> returns.
\<close>

record Externals =
  groth16_fullProve :: "CircuitInputs \<Rightarrow> string \<Rightarrow> string \<Rightarrow> error + (Groth16Proof \<times> string list)"
  groth16_verify :: "string \<Rightarrow> string list \<Rightarrow> Groth16Proof \<Rightarrow> error + bool"
  generateCacheKey :: "string \<Rightarrow> WellnessPrivateInputs \<Rightarrow> WellnessPublicInputs \<Rightarrow> string"

text \<open>
  The fields of the service. The proof cache is a map from cache keys to proofs;
  the expiry of its entries is not modelled.
\<close>

record AdvancedZKProofService =
  circuits :: "string \<rightharpoonup> Circuit"
  proofCache :: "string \<rightharpoonup> WellnessZKProof"
  verificationKeys :: "string \<rightharpoonup> string"

text \<open>
  \<open>publicSignals[i]\<close>: \<open>undefined\<close> (here \<open>None\<close>) beyond the end of the array.
\<close>

definition signalAt :: "string list \<Rightarrow> nat \<Rightarrow> string option" where
  "signalAt signals i = (if i < length signals then Some (signals ! i) else None)"

text \<open>
  \<open>parseInt\<close> on a public signal: leading blanks, an optional sign and the longest
  prefix of decimal digits; \<open>NaN\<close> (here \<open>None\<close>) when there is no digit or the
  signal is \<open>undefined\<close>. Public signals are decimal strings; the hexadecimal prefix
  \<open>0x\<close> is not modelled.
\<close>

definition digitOf :: "char \<Rightarrow> nat option" where
  "digitOf c = (let n = (of_char c :: nat) in if 48 \<le> n \<and> n \<le> 57 then Some (n - 48) else None)"

fun parseDigits :: "string \<Rightarrow> nat option \<Rightarrow> nat option" where
  "parseDigits [] acc = acc"
| "parseDigits (c # cs) acc =
     (case digitOf c of
        None \<Rightarrow> acc
      | Some d \<Rightarrow> parseDigits cs (Some (10 * (case acc of None \<Rightarrow> 0 | Some a \<Rightarrow> a) + d)))"

definition parseInt :: "string option \<Rightarrow> int option" where
  "parseInt s =
     (case s of
        None \<Rightarrow> None
      | Some cs \<Rightarrow>
          (case dropWhile (\<lambda>c. c = CHR '' '') cs of
             [] \<Rightarrow> None
           | c # rest \<Rightarrow>
               if c = CHR ''-'' then map_option (\<lambda>n. - int n) (parseDigits rest None)
               else if c = CHR ''+'' then map_option int (parseDigits rest None)
               else map_option int (parseDigits (c # rest) None)))"

text \<open>
  \<open>verifyProof\<close>. The body of the \<open>try\<close> throws when no verification key is loaded
  for the circuit name and otherwise calls the verifier; the \<open>catch\<close> turns every
  thrown error into the result \<open>false\<close>.
\<close>

definition verifyProof ::
  "Externals \<Rightarrow> AdvancedZKProofService \<Rightarrow> string \<Rightarrow> Groth16Proof \<Rightarrow> string list \<Rightarrow> error + bool" where
  "verifyProof ext svc circuitName prf signals =
     (case (case verificationKeys svc circuitName of
              None \<Rightarrow> Inl (Error (''Verification key not found for circuit: '' @ circuitName))
            | Some vKey \<Rightarrow> groth16_verify ext vKey signals prf) of
        Inl e \<Rightarrow> Inr False
      | Inr b \<Rightarrow> Inr b)"

text \<open>
  \<open>generateWellnessMilestoneProof\<close>, with the service after the call. A cached proof
  is returned as it is. Otherwise the body of the \<open>try\<close> proves, verifies the fresh
  proof, throws when it is invalid, and caches and returns it; the \<open>catch\<close> rethrows
  with a prefixed message. Reading \<open>circuit.wasm\<close> of a circuit that is not loaded
  throws a \<open>TypeError\<close>.
\<close>

definition generateWellnessMilestoneProof ::
  "Externals \<Rightarrow> int \<Rightarrow> AdvancedZKProofService \<Rightarrow> WellnessPrivateInputs \<Rightarrow> WellnessPublicInputs
     \<Rightarrow> (error + WellnessZKProof) \<times> AdvancedZKProofService" where
  "generateWellnessMilestoneProof ext now svc privateInputs publicInputs =
     (let circuitName = ''wellness_milestone'';
          cacheKey = generateCacheKey ext circuitName privateInputs publicInputs
      in case proofCache svc cacheKey of
           Some cachedProof \<Rightarrow> (Inr cachedProof, svc)
         | None \<Rightarrow>
             (case
                (case circuits svc circuitName of
                   None \<Rightarrow> Inl (Error ''Cannot read properties of undefined (reading wasm)'')
                 | Some circuit \<Rightarrow>
                     (case groth16_fullProve ext (WellnessCircuitInputs privateInputs publicInputs)
                             (wasm circuit) (zkey circuit) of
                        Inl e \<Rightarrow> Inl e
                      | Inr (prf, signals) \<Rightarrow>
                          (case verifyProof ext svc circuitName prf signals of
                             Inl e \<Rightarrow> Inl e
                           | Inr valid \<Rightarrow>
                               if \<not> valid then Inl (Error ''Generated proof is invalid'')
                               else Inr \<lparr> zkProof = \<lparr> pi_a = pi_a prf, pi_b = pi_b prf, pi_c = pi_c prf \<rparr>,
                                          publicSignals = signals,
                                          proofMilestoneAchieved = (signalAt signals 0 = Some ''1''),
                                          achievementHash = signalAt signals 1,
                                          consistencyProof = signalAt signals 2,
                                          improvementProof = signalAt signals 3,
                                          privacyScore = parseInt (signalAt signals 4),
                                          isValid = True,
                                          timestamp = now \<rparr>))) of
                Inl (Error message) \<Rightarrow>
                  (Inl (Error (''Failed to generate wellness milestone proof: '' @ message)), svc)
              | Inr fresh \<Rightarrow>
                  (Inr fresh, svc\<lparr> proofCache := (proofCache svc)(cacheKey \<mapsto> fresh) \<rparr>)))"

text \<open>
  \<open>generatePeerSupportProof\<close>. There is no cache; the result of \<open>verifyProof\<close> is
  stored in the field \<open>isValid\<close> of the returned proof and is not tested.
\<close>

definition generatePeerSupportProof ::
  "Externals \<Rightarrow> int \<Rightarrow> AdvancedZKProofService \<Rightarrow> PeerSupportPrivateInputs \<Rightarrow> PeerSupportRequirements
     \<Rightarrow> error + PeerSupportZKProof" where
  "generatePeerSupportProof ext now svc supporterData requirements =
     (let circuitName = ''peer_support''
      in case
           (case circuits svc circuitName of
              None \<Rightarrow> Inl (Error ''Cannot read properties of undefined (reading wasm)'')
            | Some circuit \<Rightarrow>
                (case groth16_fullProve ext (PeerSupportCircuitInputs supporterData requirements)
                        (wasm circuit) (zkey circuit) of
                   Inl e \<Rightarrow> Inl e
                 | Inr (prf, signals) \<Rightarrow>
                     (case verifyProof ext svc circuitName prf signals of
                        Inl e \<Rightarrow> Inl e
                      | Inr valid \<Rightarrow>
                          Inr \<lparr> peerZkProof = \<lparr> pi_a = pi_a prf, pi_b = pi_b prf, pi_c = pi_c prf \<rparr>,
                                peerPublicSignals = signals,
                                canProvideSupport = (signalAt signals 0 = Some ''1''),
                                supportQualityScore = parseInt (signalAt signals 1),
                                anonymousCredential = signalAt signals 2,
                                peerIsValid = valid,
                                peerTimestamp = now \<rparr>))) of
           Inl (Error message) \<Rightarrow>
             Inl (Error (''Failed to generate peer support proof: '' @ message))
         | Inr fresh \<Rightarrow> Inr fresh)"

text \<open>
  Batch requests and results. A request is a tagged union keyed by its \<open>type\<close>:
  the two known types with their inputs, and any other type string.
\<close>

datatype BatchRequestBody =
  WellnessMilestoneRequest WellnessPrivateInputs WellnessPublicInputs
| PeerSupportRequest PeerSupportPrivateInputs PeerSupportRequirements
| OtherRequest string

record BatchProofRequest =
  requestId :: string
  requestBody :: BatchRequestBody

datatype AnyZKProof =
  WellnessResult WellnessZKProof
| PeerSupportResult PeerSupportZKProof

record BatchProofResult =
  resultRequestId :: string
  success :: bool
  resultProof :: "AnyZKProof option"
  resultError :: "string option"

text \<open>
  The function mapped over the requests by \<open>generateBatchProofs\<close>: the \<open>switch\<close> on
  the request type inside a \<open>try\<close>, whose \<open>catch\<close> turns a thrown error into a failed
  result that carries the error's message.
\<close>

definition processRequest ::
  "Externals \<Rightarrow> int \<Rightarrow> AdvancedZKProofService \<Rightarrow> BatchProofRequest
     \<Rightarrow> BatchProofResult \<times> AdvancedZKProofService" where
  "processRequest ext now svc request =
     (case
        (case requestBody request of
           WellnessMilestoneRequest privateInputs publicInputs \<Rightarrow>
             (case generateWellnessMilestoneProof ext now svc privateInputs publicInputs of
                (r, svc') \<Rightarrow> (map_sum id WellnessResult r, svc'))
         | PeerSupportRequest privateInputs publicInputs \<Rightarrow>
             (map_sum id PeerSupportResult
                (generatePeerSupportProof ext now svc privateInputs publicInputs), svc)
         | OtherRequest t \<Rightarrow> (Inl (Error (''Unknown proof type: '' @ t)), svc)) of
        (Inr p, svc') \<Rightarrow>
          (\<lparr> resultRequestId = requestId request, success = True,
              resultProof = Some p, resultError = None \<rparr>, svc')
      | (Inl (Error message), svc') \<Rightarrow>
          (\<lparr> resultRequestId = requestId request, success = False,
              resultProof = None, resultError = Some message \<rparr>, svc'))"

text \<open>
  \<open>generateBatchProofs\<close>: one result per request, in request order, as
  \<open>Promise.all\<close> returns them. The requests share the service; here they run one
  after the other, each on the service its predecessors left.
\<close>

fun generateBatchProofs ::
  "Externals \<Rightarrow> int \<Rightarrow> AdvancedZKProofService \<Rightarrow> BatchProofRequest list
     \<Rightarrow> BatchProofResult list \<times> AdvancedZKProofService" where
  "generateBatchProofs ext now svc [] = ([], svc)"
| "generateBatchProofs ext now svc (request # requests) =
     (case processRequest ext now svc request of
        (result, svc') \<Rightarrow>
          (case generateBatchProofs ext now svc' requests of
             (results, svc'') \<Rightarrow> (result # results, svc'')))"

text \<open>The two shapes a batch result has: a proof and no error, or an error and no proof.\<close>

definition outcomeShape :: "BatchProofResult \<Rightarrow> bool" where
  "outcomeShape r =
     (if success r then resultProof r \<noteq> None \<and> resultError r = None
      else resultProof r = None \<and> resultError r \<noteq> None)"

text \<open>
  Concrete surroundings for runs of the service: a prover that returns a fixed
  proof with the public signals of the circuit asked for, a verifier that accepts
  or rejects everything, and a service with both circuits and keys loaded.
\<close>

definition sampleProof :: Groth16Proof where
  "sampleProof =
     \<lparr> pi_a = [''11'', ''12'', ''1''],
       pi_b = [[''21'', ''22''], [''23'', ''24''], [''1'', ''0'']],
       pi_c = [''31'', ''32'', ''1''] \<rparr>"

definition sampleExternals :: "bool \<Rightarrow> Externals" where
  "sampleExternals accept =
     \<lparr> groth16_fullProve =
         (\<lambda>inputs w z.
            Inr (sampleProof,
                 case inputs of
                   WellnessCircuitInputs priv pub \<Rightarrow> [''1'', ''501'', ''502'', ''503'', ''1'']
                 | PeerSupportCircuitInputs priv req \<Rightarrow> [''1'', ''4'', ''601''])),
       groth16_verify = (\<lambda>vKey signals prf. Inr accept),
       generateCacheKey = (\<lambda>name priv pub. name @ userPrivateKey priv) \<rparr>"

definition sampleService :: AdvancedZKProofService where
  "sampleService =
     \<lparr> circuits = [''wellness_milestone'' \<mapsto> \<lparr> wasm = ''w1'', zkey = ''z1'' \<rparr>,
                   ''peer_support'' \<mapsto> \<lparr> wasm = ''w2'', zkey = ''z2'' \<rparr>],
       proofCache = Map.empty,
       verificationKeys = [''wellness_milestone'' \<mapsto> ''vk1'', ''peer_support'' \<mapsto> ''vk2''] \<rparr>"

definition sampleSupporter :: PeerSupportPrivateInputs where
  "sampleSupporter =
     \<lparr> supporterExperience = 5, supporterWellnessScore = 80,
       supportHistory = replicate 20 4, supporterPrivateKey = ''supporter'' \<rparr>"

definition sampleRequirements :: PeerSupportRequirements where
  "sampleRequirements =
     \<lparr> minExperienceRequired = 2, minWellnessForSupport = 60, supportQualityThreshold = 3 \<rparr>"

definition sampleBatch :: "BatchProofRequest list" where
  "sampleBatch =
     [\<lparr> requestId = ''r1'',
        requestBody = WellnessMilestoneRequest (scenarioA_private 85) (scenarioA_public 80) \<rparr>,
      \<lparr> requestId = ''r2'', requestBody = OtherRequest ''mood_privacy'' \<rparr>,
      \<lparr> requestId = ''r3'', requestBody = PeerSupportRequest sampleSupporter sampleRequirements \<rparr>]"

text \<open>
  The proofs the service builds from the sample prover's output at time 0 when the
  verifier accepts.
\<close>

definition sampleWellnessZKProof :: WellnessZKProof where
  "sampleWellnessZKProof =
     \<lparr> zkProof = sampleProof,
       publicSignals = [''1'', ''501'', ''502'', ''503'', ''1''],
       proofMilestoneAchieved = True,
       achievementHash = Some ''501'',
       consistencyProof = Some ''502'',
       improvementProof = Some ''503'',
       privacyScore = Some 1,
       isValid = True,
       timestamp = 0 \<rparr>"

definition samplePeerSupportZKProof :: PeerSupportZKProof where
  "samplePeerSupportZKProof =
     \<lparr> peerZkProof = sampleProof,
       peerPublicSignals = [''1'', ''4'', ''601''],
       canProvideSupport = True,
       supportQualityScore = Some 4,
       anonymousCredential = Some ''601'',
       peerIsValid = True,
       peerTimestamp = 0 \<rparr>"

text \<open>The results of a batch, and the service it leaves behind.\<close>

definition batchResults ::
  "Externals \<Rightarrow> int \<Rightarrow> AdvancedZKProofService \<Rightarrow> BatchProofRequest list \<Rightarrow> BatchProofResult list" where
  "batchResults ext now svc requests = fst (generateBatchProofs ext now svc requests)"

definition serviceAfter ::
  "Externals \<Rightarrow> int \<Rightarrow> AdvancedZKProofService \<Rightarrow> BatchProofRequest list \<Rightarrow> AdvancedZKProofService" where
  "serviceAfter ext now svc requests = snd (generateBatchProofs ext now svc requests)"

section \<open>Properties of the circuit model\<close>

lemma GreaterEqThan_fits8:
  "fits8 a \<Longrightarrow> fits8 b \<Longrightarrow> GreaterEqThan 8 a b = Some (if b \<le> a then 1 else 0)"
  by (simp add: GreaterEqThan_def fits8_def)

lemma GreaterEqThan_Some_iff:
  "GreaterEqThan 8 a b = Some v \<longleftrightarrow> fits8 a \<and> fits8 b \<and> v = (if b \<le> a then 1 else 0)"
  by (auto simp: GreaterEqThan_def fits8_def)

lemma milestoneAchieved_in_range:
  assumes "wellness_in_range priv pub"
  shows "milestoneAchieved priv pub =
     Some (if minWellnessThreshold pub \<le> mentalHealthScore priv \<and>
              minSessionRequirement pub \<le> sessionCount priv \<and>
              minConsistencyDays pub \<le> consistencyDays priv \<and>
              minImprovementPercent pub \<le> moodImprovementScore priv
           then 1 else 0)"
  using assms
  by (simp add: milestoneAchieved_def wellness_in_range_def GreaterEqThan_fits8 AND_def)

lemma milestoneAchieved_Some_in_range:
  "milestoneAchieved priv pub = Some a \<Longrightarrow> wellness_in_range priv pub"
  by (auto simp: milestoneAchieved_def wellness_in_range_def GreaterEqThan_Some_iff
           split: bind_splits)

text \<open>
  C5. The achieved output is the logical AND of the four comparisons
  score \<ge> minScore, sessions \<ge> minSessions, consistency-days \<ge> minConsistency and
  improvement \<ge> minImprovement: on every input the 8-bit comparators accept, the
  circuit outputs 1 exactly when all four hold and 0 otherwise. In Scenario A
  (score 85, sessions 12, consistency days 40, improvement 30 against thresholds
  80, 10, 30, 20) the output is 1, and with the score lowered to 70 it is 0.
\<close>

theorem milestoneAchieved_is_AND_of_comparisons:
  "(wellness_in_range priv pub \<longrightarrow>
      milestoneAchieved priv pub =
        Some (if mentalHealthScore priv \<ge> minWellnessThreshold pub \<and>
                 sessionCount priv \<ge> minSessionRequirement pub \<and>
                 consistencyDays priv \<ge> minConsistencyDays pub \<and>
                 moodImprovementScore priv \<ge> minImprovementPercent pub
              then 1 else 0)) \<and>
   milestoneAchieved (scenarioA_private 85) (scenarioA_public 80) = Some 1 \<and>
   milestoneAchieved (scenarioA_private 70) (scenarioA_public 80) = Some 0"
proof (intro conjI impI)
  assume "wellness_in_range priv pub"
  then show "milestoneAchieved priv pub =
        Some (if mentalHealthScore priv \<ge> minWellnessThreshold pub \<and>
                 sessionCount priv \<ge> minSessionRequirement pub \<and>
                 consistencyDays priv \<ge> minConsistencyDays pub \<and>
                 moodImprovementScore priv \<ge> minImprovementPercent pub
              then 1 else 0)"
    by (rule milestoneAchieved_in_range)
next
  have "wellness_in_range (scenarioA_private 85) (scenarioA_public 80)"
    by (simp add: wellness_in_range_def fits8_def scenarioA_private_def scenarioA_public_def)
  then show "milestoneAchieved (scenarioA_private 85) (scenarioA_public 80) = Some 1"
    by (simp add: milestoneAchieved_in_range scenarioA_private_def scenarioA_public_def)
next
  have "wellness_in_range (scenarioA_private 70) (scenarioA_public 80)"
    by (simp add: wellness_in_range_def fits8_def scenarioA_private_def scenarioA_public_def)
  then show "milestoneAchieved (scenarioA_private 70) (scenarioA_public 80) = Some 0"
    by (simp add: milestoneAchieved_in_range scenarioA_private_def scenarioA_public_def)
qed

theorem milestoneAchieved_is_AND_of_comparisons_witness:
  "wellness_in_range (scenarioA_private 85) (scenarioA_public 90) \<and>
   milestoneAchieved (scenarioA_private 85) (scenarioA_public 90) = Some 0 \<and>
   milestoneAchieved (scenarioA_private 85) (scenarioA_public 80) = Some 1"
proof -
  have r: "wellness_in_range (scenarioA_private 85) (scenarioA_public 90)"
    by (simp add: wellness_in_range_def fits8_def scenarioA_private_def scenarioA_public_def)
  from milestoneAchieved_is_AND_of_comparisons
         [of "scenarioA_private 85" "scenarioA_public 90"] r
  show ?thesis
    by (simp add: scenarioA_private_def scenarioA_public_def)
qed

text \<open>
  C4. Monotonicity: with the private inputs fixed, raising any of the four public
  minimum thresholds (the other public inputs are free to change) never turns an
  achieved output of 0 into 1; the outputs are 0 or 1, so the only change possible
  is from 1 to 0.
\<close>

theorem raising_threshold_never_flips_to_achieved:
  assumes "minWellnessThreshold pub \<le> minWellnessThreshold pub'"
    and "minSessionRequirement pub \<le> minSessionRequirement pub'"
    and "minConsistencyDays pub \<le> minConsistencyDays pub'"
    and "minImprovementPercent pub \<le> minImprovementPercent pub'"
    and "milestoneAchieved priv pub = Some a"
    and "milestoneAchieved priv pub' = Some a'"
  shows "a' \<le> a \<and> a \<in> {0, 1} \<and> a' \<in> {0, 1} \<and> \<not> (a = 0 \<and> a' = 1)"
proof -
  have r: "wellness_in_range priv pub" and r': "wellness_in_range priv pub'"
    using assms(5,6) by (auto dest: milestoneAchieved_Some_in_range)
  show ?thesis
    using assms milestoneAchieved_in_range [OF r] milestoneAchieved_in_range [OF r']
    by (auto split: if_splits)
qed

theorem raising_threshold_never_flips_to_achieved_witness:
  "milestoneAchieved (scenarioA_private 85) (scenarioA_public 80) = Some 1 \<and>
   milestoneAchieved (scenarioA_private 85) (scenarioA_public 90) = Some 0 \<and>
   minWellnessThreshold (scenarioA_public 80) \<le> minWellnessThreshold (scenarioA_public 90)"
proof -
  have a: "milestoneAchieved (scenarioA_private 85) (scenarioA_public 80) = Some 1"
    by (simp add: milestoneAchieved_def GreaterEqThan_def AND_def
          scenarioA_private_def scenarioA_public_def)
  have b: "milestoneAchieved (scenarioA_private 85) (scenarioA_public 90) = Some 0"
    by (simp add: milestoneAchieved_def GreaterEqThan_def AND_def
          scenarioA_private_def scenarioA_public_def)
  have le: "minWellnessThreshold (scenarioA_public 80) \<le> minWellnessThreshold (scenarioA_public 90)"
    by (simp add: scenarioA_public_def)
  have "(0::int) \<le> 1 \<and> (1::int) \<in> {0, 1} \<and> (0::int) \<in> {0, 1} \<and> \<not> ((1::int) = 0 \<and> (0::int) = 1)"
    by (rule raising_threshold_never_flips_to_achieved [OF le _ _ _ a b])
       (simp_all add: scenarioA_public_def)
  with a b le show ?thesis by simp
qed

section \<open>Properties of the peer-support quality score\<close>












section \<open>Properties of the aggregation engine\<close>

subsection \<open>Numbers that convert and divide exactly\<close>

lemma divide_mult_cancel: "b \<noteq> 0 \<Longrightarrow> a / b * b = (a::real)"
  by simp

lemma roundHalfEven_of_int: "roundHalfEven (of_int z) = z"
  by (simp add: roundHalfEven_def)

lemma floor_log_bound:
  assumes "k \<noteq> 0" "\<bar>k\<bar> < 2 ^ 53"
  shows "\<lfloor>log 2 \<bar>of_int k :: real\<bar>\<rfloor> \<le> 52"
proof -
  have pos: "0 < \<bar>of_int k :: real\<bar>" using assms(1) by simp
  have "\<bar>of_int k :: real\<bar> < 2 ^ 53"
    using assms(2) by (metis of_int_abs of_int_less_numeral_power_cancel_iff)
  then have "log 2 \<bar>of_int k :: real\<bar> < 53"
    using pos by (simp add: log_less_iff powr_realpow [symmetric] del: of_int_abs)
  then show ?thesis by linarith
qed

lemma roundDouble_dyadic:
  assumes "\<bar>k\<bar> < 2 ^ 53"
  shows "roundDouble (of_int k * 2 powr of_int i) = of_int k * 2 powr of_int i"
proof (cases "k = 0")
  case True
  then show ?thesis by (simp add: roundDouble_def)
next
  case False
  define L where "L = \<lfloor>log 2 \<bar>of_int k :: real\<bar>\<rfloor>"
  have L: "L \<le> 52" using floor_log_bound [OF False assms] by (simp add: L_def)
  let ?x = "of_int k * 2 powr of_int i :: real"
  have x0: "?x \<noteq> 0" using False by simp
  have "log 2 \<bar>?x\<bar> = log 2 \<bar>of_int k :: real\<bar> + of_int i"
    using False by (simp add: abs_mult log_mult)
  then have e: "\<lfloor>log 2 \<bar>?x\<bar>\<rfloor> = L + i"
    by (simp add: L_def)
  define j where "j = nat (52 - L)"
  have j: "of_int (52 - L) = (real j)" using L by (simp add: j_def)
  have "2 powr (of_int i - of_int (L + i - 52)) = 2 powr of_int i / (2 powr of_int (L + i - 52) :: real)"
    by (rule powr_diff)
  then have "?x / 2 powr of_int (L + i - 52) = of_int k * 2 powr (of_int i - of_int (L + i - 52))"
    by (simp only: times_divide_eq_right)
  also have "of_int i - of_int (L + i - 52) = (of_int (52 - L) :: real)" by simp
  also have "of_int k * 2 powr (of_int (52 - L)) = (of_int (k * 2 ^ j) :: real)"
    unfolding j by (simp add: powr_realpow)
  finally have m: "?x / 2 powr of_int (L + i - 52) = of_int (k * 2 ^ j)" .
  have "roundDouble ?x =
          of_int (roundHalfEven (?x / 2 powr of_int (L + i - 52))) * 2 powr of_int (L + i - 52)"
    unfolding roundDouble_def Let_def e using x0 by (simp only: if_False)
  also have "\<dots> = of_int (k * 2 ^ j) * 2 powr of_int (L + i - 52)"
    by (simp only: m roundHalfEven_of_int)
  also have "\<dots> = ?x"
  proof -
    have nz: "2 powr of_int (L + i - 52) \<noteq> (0::real)" by simp
    have "of_int (k * 2 ^ j) * 2 powr of_int (L + i - 52) =
            (?x / 2 powr of_int (L + i - 52)) * 2 powr of_int (L + i - 52)"
      by (simp only: m)
    also have "\<dots> = ?x" using nz by (rule divide_mult_cancel)
    finally show ?thesis .
  qed
  finally show ?thesis .
qed

lemma roundDouble_of_int: "\<bar>k\<bar> < 2 ^ 53 \<Longrightarrow> roundDouble (of_int k) = of_int k"
  using roundDouble_dyadic [of k 0] by simp

lemma Number_of_bigint_safe: "\<bar>z\<bar> < 2 ^ 53 \<Longrightarrow> Number_of_bigint z = of_int z"
  by (simp add: Number_of_bigint_def roundDouble_of_int)

subsection \<open>Paillier key pairs meet the contract\<close>

lemma binomial_mod_square:
  "(1 + n * a) ^ k mod (n * n) = (1 + int k * n * a) mod (n * (n::int))"
proof (induction k)
  case 0
  show ?case by simp
next
  case (Suc k)
  have "(1 + n * a) ^ Suc k mod (n * n) = ((1 + n * a) ^ k mod (n * n) * (1 + n * a)) mod (n * n)"
    by (simp only: power_Suc2 mod_mult_left_eq)
  also have "\<dots> = ((1 + int k * n * a) * (1 + n * a)) mod (n * n)"
    by (simp only: Suc.IH mod_mult_left_eq)
  also have "(1 + int k * n * a) * (1 + n * a) = (1 + int (Suc k) * n * a) + (n * n) * (int k * a * a)"
    by (simp add: algebra_simps)
  also have "\<dots> mod (n * n) = (1 + int (Suc k) * n * a) mod (n * n)"
    by (rule mod_mult_self2)
  finally show ?case .
qed

lemma L_of_one_plus:
  assumes n: "1 < (n::int)" and y: "y mod (n * n) = (1 + n * s) mod (n * n)"
  shows "(y mod (n * n) - 1) div n = s mod n"
proof -
  have "(1 + n * s) mod (n * n) = 1 + n * (s mod n)"
  proof -
    have "(1 + n * (s mod n)) + (n * n) * (s div n) = 1 + n * (s mod n + n * (s div n))"
      by (simp only: distrib_left mult.assoc add.assoc)
    also have "\<dots> = 1 + n * s"
      by (simp only: mod_mult_div_eq)
    finally have eq: "1 + n * s = (1 + n * (s mod n)) + (n * n) * (s div n)"
      by (rule sym)
    have "(1 + n * s) mod (n * n) = ((1 + n * (s mod n)) + (n * n) * (s div n)) mod (n * n)"
      by (simp only: eq [symmetric])
    also have "\<dots> = (1 + n * (s mod n)) mod (n * n)"
      by (rule mod_mult_self2)
    finally have "(1 + n * s) mod (n * n) = (1 + n * (s mod n)) mod (n * n)" .
    moreover have "0 \<le> 1 + n * (s mod n)" using n by simp
    moreover have "1 + n * (s mod n) < n * n"
    proof -
      have "s mod n \<le> n - 1" using n by (simp add: pos_mod_bound zle_diff1_eq)
      then have "n * (s mod n) \<le> n * (n - 1)" using n by (simp add: mult_left_mono)
      then show ?thesis using n by (simp add: algebra_simps)
    qed
    ultimately show ?thesis by simp
  qed
  with y have "y mod (n * n) - 1 = n * (s mod n)" by simp
  then show ?thesis using n by simp
qed

lemma unit_power:
  assumes "c ^ lam mod n = (1::int)"
  shows "\<exists>a. c ^ lam = 1 + n * a"
  by (metis assms mult_div_mod_eq add.commute)

lemma decrypt_of_power:
  assumes n: "1 < (n::int)" and c: "c ^ lam mod (n * n) = (1 + n * s) mod (n * n)"
  shows "privateKey_decrypt (paillierKeys n lam mu) c = (s * mu) mod n"
  using L_of_one_plus [OF n c] by (simp add: paillierKeys_def mod_mult_left_eq)

lemma paillier_decrypt_encrypt:
  assumes n: "1 < n"
    and units: "\<forall>c. gcd c n = 1 \<longrightarrow> c ^ lam mod n = 1"
    and mu: "(int lam * mu) mod n = 1"
    and r: "gcd r n = 1"
  shows "privateKey_decrypt (paillierKeys n lam mu) (publicKey_encrypt (paillierKeys n lam mu) r m)
           = m mod n"
proof -
  define j where "j = nat (m mod n)"
  have j: "int j = m mod n" using n by (simp add: j_def)
  have "r ^ lam mod n = 1" by (rule units [rule_format, OF r])
  then obtain a where a: "r ^ lam = 1 + n * a" using unit_power by blast
  have rn: "(r ^ nat n) ^ lam mod (n * n) = 1"
  proof -
    have "(r ^ nat n) ^ lam = (r ^ lam) ^ nat n" by (simp add: power_mult [symmetric] mult.commute)
    also have "\<dots> mod (n * n) = (1 + int (nat n) * n * a) mod (n * n)"
      unfolding a by (rule binomial_mod_square)
    also have "\<dots> = (1 + (n * n) * a) mod (n * n)" using n by simp
    also have "\<dots> = 1 mod (n * n)" by (rule mod_mult_self2)
    also have "\<dots> = 1" using n by (simp add: less_1_mult)
    finally show ?thesis .
  qed
  have gj: "((n + 1) ^ j) ^ lam mod (n * n) = (1 + n * (int j * int lam)) mod (n * n)"
  proof -
    have "((n + 1) ^ j) ^ lam = (1 + n * 1) ^ (j * lam)" by (simp add: power_mult add.commute)
    also have "\<dots> mod (n * n) = (1 + int (j * lam) * n * 1) mod (n * n)"
      by (rule binomial_mod_square)
    finally show ?thesis by (simp add: mult.commute mult.left_commute)
  qed
  let ?c = "((n + 1) ^ j * r ^ nat n) mod (n * n)"
  have "?c ^ lam mod (n * n) = (((n + 1) ^ j) ^ lam mod (n * n) * ((r ^ nat n) ^ lam mod (n * n))) mod (n * n)"
    by (simp add: power_mod power_mult_distrib mod_mult_eq)
  also have "\<dots> = (1 + n * (int j * int lam)) mod (n * n)"
    by (simp add: rn gj)
  finally have "privateKey_decrypt (paillierKeys n lam mu) ?c = (int j * int lam * mu) mod n"
    by (rule decrypt_of_power [OF n])
  also have "\<dots> = (int j * ((int lam * mu) mod n)) mod n"
    by (simp add: mod_mult_right_eq mult.assoc)
  also have "\<dots> = m mod n" using j mu by simp
  finally show ?thesis by (simp add: paillierKeys_def j_def)
qed

lemma gcd_mod_square:
  "gcd (x mod (n * n)) n = gcd x (n::int)"
proof -
  have "(- (n * (x div (n * n)))) * n + x = x - (n * n) * (x div (n * n))"
    by (simp add: algebra_simps)
  also have "\<dots> = x mod (n * n)" by (rule minus_mult_div_eq_mod)
  finally have "x mod (n * n) = (- (n * (x div (n * n)))) * n + x" by (rule sym)
  then have "gcd n (x mod (n * n)) = gcd n x"
    by (simp only: gcd_add_mult)
  then show ?thesis by (simp add: gcd.commute)
qed

lemma paillier_contract:
  assumes n: "1 < n"
    and units: "\<forall>c. gcd c n = 1 \<longrightarrow> c ^ lam mod n = 1"
    and mu: "(int lam * mu) mod n = 1"
  shows "additively_homomorphic (paillierKeys n lam mu) (paillierNonces n) (paillierCiphertexts n)"
  unfolding additively_homomorphic_def
proof (intro conjI ballI allI)
  show "0 < modulus (paillierKeys n lam mu)" using n by (simp add: paillierKeys_def)
next
  fix r m assume r: "r \<in> paillierNonces n"
  then have g: "gcd r n = 1" by (simp add: paillierNonces_def)
  have "gcd ((n + 1) ^ nat (m mod n) * r ^ nat n) n = 1"
  proof -
    have "coprime (n + 1) n" by simp
    moreover have "coprime r n" using g by (simp add: coprime_iff_gcd_eq_1)
    ultimately have "coprime ((n + 1) ^ nat (m mod n) * r ^ nat n) n"
      by (simp add: coprime_power_left_iff)
    then show ?thesis by (simp add: coprime_iff_gcd_eq_1)
  qed
  then show "publicKey_encrypt (paillierKeys n lam mu) r m \<in> paillierCiphertexts n"
    using n by (simp add: paillierKeys_def paillierCiphertexts_def gcd_mod_square)
  show "privateKey_decrypt (paillierKeys n lam mu) (publicKey_encrypt (paillierKeys n lam mu) r m) =
          m mod modulus (paillierKeys n lam mu)"
    using paillier_decrypt_encrypt [OF n units mu g, of m] by (simp add: paillierKeys_def)
next
  fix c d assume "c \<in> paillierCiphertexts n" "d \<in> paillierCiphertexts n"
  then have gc: "gcd c n = 1" and gd: "gcd d n = 1" by (simp_all add: paillierCiphertexts_def)
  have "coprime c n" "coprime d n" using gc gd by (simp_all only: coprime_iff_gcd_eq_1)
  then have "coprime (c * d) n" by simp
  then have "gcd (c * d) n = 1" by (simp only: coprime_iff_gcd_eq_1)
  then show "publicKey_addition (paillierKeys n lam mu) c d \<in> paillierCiphertexts n"
    using n by (simp add: paillierKeys_def paillierCiphertexts_def gcd_mod_square)
  have "c ^ lam mod n = 1" by (rule units [rule_format, OF gc])
  then obtain a where a: "c ^ lam = 1 + n * a" using unit_power by blast
  have "d ^ lam mod n = 1" by (rule units [rule_format, OF gd])
  then obtain b where b: "d ^ lam = 1 + n * b" using unit_power by blast
  have dc: "privateKey_decrypt (paillierKeys n lam mu) c = (a * mu) mod n"
    by (rule decrypt_of_power [OF n]) (simp add: a)
  have dd: "privateKey_decrypt (paillierKeys n lam mu) d = (b * mu) mod n"
    by (rule decrypt_of_power [OF n]) (simp add: b)
  have "((c * d) mod (n * n)) ^ lam mod (n * n) = (c ^ lam * d ^ lam) mod (n * n)"
    by (simp add: power_mod power_mult_distrib)
  also have "c ^ lam * d ^ lam = (1 + n * (a + b)) + (n * n) * (a * b)"
    by (simp add: a b algebra_simps)
  also have "\<dots> mod (n * n) = (1 + n * (a + b)) mod (n * n)"
    by (rule mod_mult_self2)
  finally have "privateKey_decrypt (paillierKeys n lam mu) ((c * d) mod (n * n)) = ((a + b) * mu) mod n"
    by (rule decrypt_of_power [OF n])
  also have "\<dots> = ((a * mu) mod n + (b * mu) mod n) mod n"
    by (simp add: distrib_right mod_add_eq)
  finally show "privateKey_decrypt (paillierKeys n lam mu) (publicKey_addition (paillierKeys n lam mu) c d) =
      (privateKey_decrypt (paillierKeys n lam mu) c + privateKey_decrypt (paillierKeys n lam mu) d)
        mod modulus (paillierKeys n lam mu)"
    by (simp add: dc dd) (simp add: paillierKeys_def)
qed

lemma fermat_17: "\<not> 17 dvd (c::int) \<Longrightarrow> c ^ 16 mod 17 = 1"
proof -
  assume nd: "\<not> 17 dvd c"
  have chk: "\<forall>x\<in>set [1..16::int]. x ^ 16 mod 17 = 1"
    by code_simp
  have "c mod 17 \<noteq> 0" using nd by (simp add: dvd_eq_mod_eq_0)
  moreover have "0 \<le> c mod 17" "c mod 17 < 17" by simp_all
  ultimately have "c mod 17 \<in> set [1..16]" by auto
  with chk have "(c mod 17) ^ 16 mod 17 = 1" by blast
  then show ?thesis by (simp add: power_mod)
qed

lemma fermat_19: "\<not> 19 dvd (c::int) \<Longrightarrow> c ^ 18 mod 19 = 1"
proof -
  assume nd: "\<not> 19 dvd c"
  have chk: "\<forall>x\<in>set [1..18::int]. x ^ 18 mod 19 = 1"
    by code_simp
  have "c mod 19 \<noteq> 0" using nd by (simp add: dvd_eq_mod_eq_0)
  moreover have "0 \<le> c mod 19" "c mod 19 < 19" by simp_all
  ultimately have "c mod 19 \<in> set [1..18]" by auto
  with chk have "(c mod 19) ^ 18 mod 19 = 1" by blast
  then show ?thesis by (simp add: power_mod)
qed

lemma units_323: "gcd (c::int) 323 = 1 \<Longrightarrow> c ^ 144 mod 323 = 1"
proof -
  assume g: "gcd c 323 = 1"
  have n17: "\<not> 17 dvd c"
  proof
    assume "17 dvd c"
    moreover have "(17::int) dvd 323" by simp
    ultimately have "17 dvd gcd c 323" by (rule gcd_greatest)
    with g show False by simp
  qed
  have n19: "\<not> 19 dvd c"
  proof
    assume "19 dvd c"
    moreover have "(19::int) dvd 323" by simp
    ultimately have "19 dvd gcd c 323" by (rule gcd_greatest)
    with g show False by simp
  qed
  have "c ^ 144 mod 17 = ((c ^ 16 mod 17) ^ 9) mod 17"
    by (simp add: power_mod power_mult [symmetric])
  then have a: "c ^ 144 mod 17 = 1" by (simp add: fermat_17 [OF n17])
  have "c ^ 144 mod 19 = ((c ^ 18 mod 19) ^ 8) mod 19"
    by (simp add: power_mod power_mult [symmetric])
  then have b: "c ^ 144 mod 19 = 1" by (simp add: fermat_19 [OF n19])
  have "17 dvd c ^ 144 - 1" using a by (metis mod_eq_dvd_iff one_mod_numeral dvd_refl mod_mod_trivial one_neq_zero) 
  moreover have "19 dvd c ^ 144 - 1" using b by (metis mod_eq_dvd_iff mod_mod_trivial)
  moreover have "coprime (17::int) 19"
  proof -
    have "gcd (17::int) 19 = 1" by code_simp
    then show ?thesis by (simp only: coprime_iff_gcd_eq_1)
  qed
  ultimately have "17 * 19 dvd c ^ 144 - 1" by (rule divides_mult)
  then have "323 dvd c ^ 144 - 1" by simp
  then have "c ^ 144 mod 323 = 1 mod 323" by (simp only: mod_eq_dvd_iff)
  then show ?thesis by simp
qed

lemma smallPaillier_homomorphic:
  "additively_homomorphic smallPaillier (paillierNonces 323) (paillierCiphertexts 323)"
  unfolding smallPaillier_def
proof (rule paillier_contract)
  show "(1::int) < 323" by simp
  show "\<forall>c::int. gcd c 323 = 1 \<longrightarrow> c ^ 144 mod 323 = 1" by (simp add: units_323)
  show "int 144 * 83 mod 323 = 1" by simp
qed

lemma maskingKeys_homomorphic: "0 < n \<Longrightarrow> additively_homomorphic (maskingKeys n) UNIV UNIV"
  by (simp add: additively_homomorphic_def maskingKeys_def mod_add_eq)

subsection \<open>The aggregation loop\<close>

lemma sum_list_mod:
  "(a + sum_list (map (\<lambda>x. f x mod n) xs)) mod n = (a + sum_list (map f xs)) mod (n::int)"
proof (induction xs arbitrary: a)
  case Nil
  show ?case by simp
next
  case (Cons x xs)
  have "(a + (f x mod n + sum_list (map (\<lambda>x. f x mod n) xs))) mod n =
        ((a + f x mod n) + sum_list (map (\<lambda>x. f x mod n) xs)) mod n"
    by (simp add: add.assoc)
  also have "\<dots> = ((a + f x mod n) + sum_list (map f xs)) mod n"
    by (rule Cons.IH)
  also have "\<dots> = ((a + f x) + sum_list (map f xs)) mod n"
    by (metis mod_add_left_eq mod_add_right_eq)
  finally show ?case by (simp add: add.assoc)
qed

lemma fold_addition_decrypt:
  assumes hom: "additively_homomorphic k N C"
    and "c0 \<in> C"
    and "privateKey_decrypt k c0 = s mod modulus k"
    and "\<forall>e\<in>set ems. g e \<in> C"
  shows "fold (\<lambda>e c. publicKey_addition k c (g e)) ems c0 \<in> C \<and>
         privateKey_decrypt k (fold (\<lambda>e c. publicKey_addition k c (g e)) ems c0) =
           (s + sum_list (map (\<lambda>e. privateKey_decrypt k (g e)) ems)) mod modulus k"
  using assms(2-4)
proof (induction ems arbitrary: c0 s)
  case Nil
  then show ?case by simp
next
  case (Cons e ems)
  have ge: "g e \<in> C" using Cons.prems(3) by simp
  have v: "publicKey_addition k c0 (g e) \<in> C"
    using hom Cons.prems(1) ge by (simp add: additively_homomorphic_def)
  have d: "privateKey_decrypt k (publicKey_addition k c0 (g e)) =
          (s + privateKey_decrypt k (g e)) mod modulus k"
    using hom Cons.prems(1,2) ge by (simp add: additively_homomorphic_def mod_add_left_eq)
  have r: "\<forall>e\<in>set ems. g e \<in> C" using Cons.prems(3) by simp
  from Cons.IH [OF v d r] show ?case by (simp add: add.assoc)
qed

lemma fold_addMetric_fields:
  "totalEncryptedMood (fold (addMetric k) ems t) =
     fold (\<lambda>e c. publicKey_addition k c (encryptedMoodScore e)) ems (totalEncryptedMood t)"
  "totalEncryptedSessions (fold (addMetric k) ems t) =
     fold (\<lambda>e c. publicKey_addition k c (encryptedSessionCount e)) ems (totalEncryptedSessions t)"
  "totalEncryptedEngagement (fold (addMetric k) ems t) =
     fold (\<lambda>e c. publicKey_addition k c (encryptedEngagementTime e)) ems (totalEncryptedEngagement t)"
  "totalEncryptedWellness (fold (addMetric k) ems t) =
     fold (\<lambda>e c. publicKey_addition k c (encryptedWellnessScore e)) ems (totalEncryptedWellness t)"
  "totalEncryptedCrisis (fold (addMetric k) ems t) =
     fold (\<lambda>e c. publicKey_addition k c (encryptedCrisisEvents e)) ems (totalEncryptedCrisis t)"
  by (induction ems arbitrary: t; simp add: addMetric_def)+

lemma fold_addition_homomorphicSum:
  "fold (\<lambda>e c. publicKey_addition k c (g e)) rest (g first) = homomorphicSum k g first rest"
proof -
  have "fold (\<lambda>e c. publicKey_addition k c (g e)) rest c0 =
          foldl (publicKey_addition k) c0 (map g rest)" for c0
    by (induction rest arbitrary: c0) simp_all
  then show ?thesis by (simp add: homomorphicSum_def)
qed

lemma totals_homomorphicSum:
  "totalEncryptedMood (fold (addMetric k) rest (initialTotals first)) =
     homomorphicSum k encryptedMoodScore first rest"
  "totalEncryptedSessions (fold (addMetric k) rest (initialTotals first)) =
     homomorphicSum k encryptedSessionCount first rest"
  "totalEncryptedEngagement (fold (addMetric k) rest (initialTotals first)) =
     homomorphicSum k encryptedEngagementTime first rest"
  "totalEncryptedWellness (fold (addMetric k) rest (initialTotals first)) =
     homomorphicSum k encryptedWellnessScore first rest"
  "totalEncryptedCrisis (fold (addMetric k) rest (initialTotals first)) =
     homomorphicSum k encryptedCrisisEvents first rest"
  by (simp_all add: fold_addMetric_fields initialTotals_def fold_addition_homomorphicSum)

lemma decrypt_encrypted_sum:
  assumes hom: "additively_homomorphic k N C" and len: "length rnds = length ms"
    and g: "\<And>r m. g (encryptUserMetrics k r m) = publicKey_encrypt k (nonce r) (f m)"
    and nonces: "\<forall>r\<in>set rnds. nonce r \<in> N"
  shows "sum_list (map (\<lambda>e. privateKey_decrypt k (g e)) (map2 (encryptUserMetrics k) rnds ms)) =
         sum_list (map (\<lambda>m. f m mod modulus k) ms) \<and>
         (\<forall>e\<in>set (map2 (encryptUserMetrics k) rnds ms). g e \<in> C)"
  using len nonces
proof (induction rnds ms rule: list_induct2)
  case Nil
  show ?case by simp
next
  case (Cons r rnds m ms)
  then show ?case
    using hom by (simp add: g additively_homomorphic_def)
qed

lemma decrypt_total:
  assumes hom: "additively_homomorphic k N C" and len: "length rnds = length ms"
    and g: "\<And>r m. g (encryptUserMetrics k r m) = publicKey_encrypt k (nonce r) (f m)"
    and nonces: "nonce r0 \<in> N" "\<forall>r\<in>set rnds. nonce r \<in> N"
    and rng: "0 \<le> fieldSum f (m0 # ms)" "fieldSum f (m0 # ms) < modulus k"
  shows "privateKey_decrypt k
           (homomorphicSum k g (encryptUserMetrics k r0 m0) (map2 (encryptUserMetrics k) rnds ms)) =
         fieldSum f (m0 # ms)"
proof -
  note es = decrypt_encrypted_sum [where g = g and f = f and nonce = nonce, OF hom len g nonces(2)]
  have c0: "g (encryptUserMetrics k r0 m0) \<in> C"
    using hom nonces(1) by (simp add: g additively_homomorphic_def)
  have d0: "privateKey_decrypt k (g (encryptUserMetrics k r0 m0)) = f m0 mod modulus k"
    using hom nonces(1) by (simp add: g additively_homomorphic_def)
  have "privateKey_decrypt k
           (fold (\<lambda>e c. publicKey_addition k c (g e)) (map2 (encryptUserMetrics k) rnds ms)
              (g (encryptUserMetrics k r0 m0))) =
        (f m0 + sum_list (map (\<lambda>e. privateKey_decrypt k (g e))
                    (map2 (encryptUserMetrics k) rnds ms))) mod modulus k"
    by (rule fold_addition_decrypt [OF hom c0 d0 conjunct2 [OF es], THEN conjunct2])
  also have "\<dots> = (f m0 + sum_list (map (\<lambda>m. f m mod modulus k) ms)) mod modulus k"
    by (simp only: conjunct1 [OF es])
  also have "\<dots> = (f m0 + sum_list (map f ms)) mod modulus k"
    by (rule sum_list_mod)
  also have "\<dots> = fieldSum f (m0 # ms)"
    using rng by (simp add: fieldSum_def)
  finally show ?thesis by (simp only: fold_addition_homomorphicSum)
qed

text \<open>
  The result of a non-empty aggregation, read off the source: the user count, the
  five homomorphic sums handed to the private key in order, and the numbers made
  of their decryptions.
\<close>

lemma aggregate_nonempty:
  "aggregateEncryptedMetrics k now (first # rest) =
     Inr (\<lparr> userCount = Suc (length rest),
             averageMoodScore =
               jsDivide (Number_of_bigint (privateKey_decrypt k
                 (homomorphicSum k encryptedMoodScore first rest))) (of_nat (Suc (length rest))),
             totalSessions =
               Number_of_bigint (privateKey_decrypt k
                 (homomorphicSum k encryptedSessionCount first rest)),
             averageEngagementTime =
               jsDivide (Number_of_bigint (privateKey_decrypt k
                 (homomorphicSum k encryptedEngagementTime first rest))) (of_nat (Suc (length rest))),
             averageWellnessScore =
               jsDivide (Number_of_bigint (privateKey_decrypt k
                 (homomorphicSum k encryptedWellnessScore first rest))) (of_nat (Suc (length rest))),
             totalCrisisEvents =
               Number_of_bigint (privateKey_decrypt k
                 (homomorphicSum k encryptedCrisisEvents first rest)),
             aggregationTimestamp = now \<rparr>,
          [homomorphicSum k encryptedMoodScore first rest,
           homomorphicSum k encryptedSessionCount first rest,
           homomorphicSum k encryptedEngagementTime first rest,
           homomorphicSum k encryptedWellnessScore first rest,
           homomorphicSum k encryptedCrisisEvents first rest])"
  by (simp add: aggregateEncryptedMetrics_def decryptLogged_def Let_def totals_homomorphicSum
        del: of_nat_Suc)

subsection \<open>Exact aggregation of encrypted metrics\<close>

text \<open>
  C3. For every non-empty list of plaintext metric vectors of the declared domain
  (a JavaScript array, so of fewer than \<open>2^32\<close> entries, with each field sum a
  residue of the modulus and a safe integer), encrypted element-wise under an
  additively homomorphic key pair: the homomorphic sums of
  the ciphertexts, taken field by field, decrypt to exactly the plaintext field
  sums. Decryption is called five times, once per field, whatever the number of
  inputs. The result divides the mood, engagement and wellness sums by the user
  count and reports the session and crisis-event sums as they are.
\<close>

theorem aggregate_of_encrypted_is_exact:
  assumes hom: "additively_homomorphic k N C"
    and len: "length rnds = length ms"
    and nonces: "\<forall>rnd\<in>set rnds. noncesIn N rnd"
    and ne: "ms \<noteq> []"
    and arr: "length ms < 2 ^ 32"
    and rng: "sums_in_range k ms"
  shows "\<exists>calls.
     aggregateEncryptedMetrics k now (map2 (encryptUserMetrics k) rnds ms) =
       Inr (\<lparr> userCount = length ms,
               averageMoodScore = jsDivide (of_int (fieldSum moodScore ms)) (of_nat (length ms)),
               totalSessions = of_int (fieldSum sessionsAttended ms),
               averageEngagementTime = jsDivide (of_int (fieldSum engagementTime ms)) (of_nat (length ms)),
               averageWellnessScore = jsDivide (of_int (fieldSum wellnessScore ms)) (of_nat (length ms)),
               totalCrisisEvents = of_int (fieldSum crisisEvents ms),
               aggregationTimestamp = now \<rparr>, calls) \<and>
     length calls = 5 \<and>
     map (privateKey_decrypt k) calls =
       [fieldSum moodScore ms, fieldSum sessionsAttended ms, fieldSum engagementTime ms,
        fieldSum wellnessScore ms, fieldSum crisisEvents ms]"
proof -
  from ne obtain m0 ms' where ms: "ms = m0 # ms'" by (cases ms) auto
  with len obtain r0 rnds' where rnds: "rnds = r0 # rnds'" and len': "length rnds' = length ms'"
    by (cases rnds) auto
  note r = rng [unfolded sums_in_range_def ms, simplified]
  have n0: "noncesIn N r0" and ns: "\<forall>rnd\<in>set rnds'. noncesIn N rnd"
    using nonces by (simp_all add: rnds)
  have g1: "\<And>r m. encryptedMoodScore (encryptUserMetrics k r m) =
                 publicKey_encrypt k (nonceMood r) (moodScore m)"
    by (simp add: encryptUserMetrics_def)
  have d1: "privateKey_decrypt k (homomorphicSum k encryptedMoodScore
               (encryptUserMetrics k r0 m0) (map2 (encryptUserMetrics k) rnds' ms')) =
            fieldSum moodScore (m0 # ms')"
    by (rule decrypt_total [where nonce = nonceMood, OF hom len' g1])
       (use n0 ns r in \<open>simp_all add: noncesIn_def\<close>)
  have g2: "\<And>r m. encryptedSessionCount (encryptUserMetrics k r m) =
                 publicKey_encrypt k (nonceSessions r) (sessionsAttended m)"
    by (simp add: encryptUserMetrics_def)
  have d2: "privateKey_decrypt k (homomorphicSum k encryptedSessionCount
               (encryptUserMetrics k r0 m0) (map2 (encryptUserMetrics k) rnds' ms')) =
            fieldSum sessionsAttended (m0 # ms')"
    by (rule decrypt_total [where nonce = nonceSessions, OF hom len' g2])
       (use n0 ns r in \<open>simp_all add: noncesIn_def\<close>)
  have g3: "\<And>r m. encryptedEngagementTime (encryptUserMetrics k r m) =
                 publicKey_encrypt k (nonceEngagement r) (engagementTime m)"
    by (simp add: encryptUserMetrics_def)
  have d3: "privateKey_decrypt k (homomorphicSum k encryptedEngagementTime
               (encryptUserMetrics k r0 m0) (map2 (encryptUserMetrics k) rnds' ms')) =
            fieldSum engagementTime (m0 # ms')"
    by (rule decrypt_total [where nonce = nonceEngagement, OF hom len' g3])
       (use n0 ns r in \<open>simp_all add: noncesIn_def\<close>)
  have g4: "\<And>r m. encryptedWellnessScore (encryptUserMetrics k r m) =
                 publicKey_encrypt k (nonceWellness r) (wellnessScore m)"
    by (simp add: encryptUserMetrics_def)
  have d4: "privateKey_decrypt k (homomorphicSum k encryptedWellnessScore
               (encryptUserMetrics k r0 m0) (map2 (encryptUserMetrics k) rnds' ms')) =
            fieldSum wellnessScore (m0 # ms')"
    by (rule decrypt_total [where nonce = nonceWellness, OF hom len' g4])
       (use n0 ns r in \<open>simp_all add: noncesIn_def\<close>)
  have g5: "\<And>r m. encryptedCrisisEvents (encryptUserMetrics k r m) =
                 publicKey_encrypt k (nonceCrisis r) (crisisEvents m)"
    by (simp add: encryptUserMetrics_def)
  have d5: "privateKey_decrypt k (homomorphicSum k encryptedCrisisEvents
               (encryptUserMetrics k r0 m0) (map2 (encryptUserMetrics k) rnds' ms')) =
            fieldSum crisisEvents (m0 # ms')"
    by (rule decrypt_total [where nonce = nonceCrisis, OF hom len' g5])
       (use n0 ns r in \<open>simp_all add: noncesIn_def\<close>)
  have safe: "Number_of_bigint (fieldSum moodScore (m0 # ms')) = of_int (fieldSum moodScore (m0 # ms'))"
    "Number_of_bigint (fieldSum sessionsAttended (m0 # ms')) = of_int (fieldSum sessionsAttended (m0 # ms'))"
    "Number_of_bigint (fieldSum engagementTime (m0 # ms')) = of_int (fieldSum engagementTime (m0 # ms'))"
    "Number_of_bigint (fieldSum wellnessScore (m0 # ms')) = of_int (fieldSum wellnessScore (m0 # ms'))"
    "Number_of_bigint (fieldSum crisisEvents (m0 # ms')) = of_int (fieldSum crisisEvents (m0 # ms'))"
    using r by (simp_all add: Number_of_bigint_safe)
  show ?thesis
    unfolding ms rnds
    by (simp add: aggregate_nonempty d1 d2 d3 d4 d5 safe len' del: of_nat_Suc)
qed

lemma sampleNonces_valid:
  "\<forall>rnd\<in>set scenarioB_nonces. noncesIn (paillierNonces 323) rnd"
proof -
  have "\<forall>r\<in>set [1, 2, 3, 4, 5, 7, 8, 9, 10, 11, 20, 21, 22, 23, 24]. gcd r (323::int) = 1"
    by code_simp
  then show ?thesis
    by (simp add: scenarioB_nonces_def sampleNonces_def noncesIn_def paillierNonces_def)
qed

theorem aggregate_of_encrypted_is_exact_witness:
  "additively_homomorphic smallPaillier (paillierNonces 323) (paillierCiphertexts 323) \<and>
   list_all (noncesIn (paillierNonces 323)) scenarioB_nonces \<and>
   sums_in_range smallPaillier scenarioB_metrics \<and>
   (\<exists>calls.
      aggregateEncryptedMetrics smallPaillier 0
        (map2 (encryptUserMetrics smallPaillier) scenarioB_nonces scenarioB_metrics) =
      Inr (\<lparr> userCount = 3, averageMoodScore = 80, totalSessions = 12,
              averageEngagementTime = 30, averageWellnessScore = 70,
              totalCrisisEvents = 3, aggregationTimestamp = 0 \<rparr>, calls) \<and>
      length calls = 5 \<and>
      map (privateKey_decrypt smallPaillier) calls = [240, 12, 90, 210, 3])"
proof -
  have len: "length scenarioB_nonces = length scenarioB_metrics"
    by (simp add: scenarioB_nonces_def scenarioB_metrics_def)
  have ne: "scenarioB_metrics \<noteq> []"
    by (simp add: scenarioB_metrics_def)
  have arr: "length scenarioB_metrics < 2 ^ 32"
    by (simp add: scenarioB_metrics_def)
  have s: "fieldSum moodScore scenarioB_metrics = 240"
    "fieldSum sessionsAttended scenarioB_metrics = 12"
    "fieldSum engagementTime scenarioB_metrics = 90"
    "fieldSum wellnessScore scenarioB_metrics = 210"
    "fieldSum crisisEvents scenarioB_metrics = 3"
    by (simp_all add: fieldSum_def scenarioB_metrics_def sampleMetrics_def)
  have rng: "sums_in_range smallPaillier scenarioB_metrics"
    by (simp add: sums_in_range_def s smallPaillier_def paillierKeys_def)
  have n: "length scenarioB_metrics = 3"
    by (simp add: scenarioB_metrics_def)
  have q: "jsDivide 240 3 = 80" "jsDivide 90 3 = 30" "jsDivide 210 3 = 70"
    using roundDouble_of_int [of 80] roundDouble_of_int [of 30] roundDouble_of_int [of 70]
    by (simp_all add: jsDivide_def)
  from aggregate_of_encrypted_is_exact
         [OF smallPaillier_homomorphic len sampleNonces_valid ne arr rng, of 0]
  have "\<exists>calls.
      aggregateEncryptedMetrics smallPaillier 0
        (map2 (encryptUserMetrics smallPaillier) scenarioB_nonces scenarioB_metrics) =
      Inr (\<lparr> userCount = 3, averageMoodScore = 80, totalSessions = 12,
              averageEngagementTime = 30, averageWellnessScore = 70,
              totalCrisisEvents = 3, aggregationTimestamp = 0 \<rparr>, calls) \<and>
      length calls = 5 \<and>
      map (privateKey_decrypt smallPaillier) calls = [240, 12, 90, 210, 3]"
    by (simp add: s n q)
  with smallPaillier_homomorphic sampleNonces_valid rng show ?thesis
    by (simp add: list_all_iff)
qed

text \<open>
  C7. Aggregating an empty list of encrypted metrics fails with the error
  "No metrics to aggregate"; no zero or partial result is returned.
\<close>

theorem aggregate_empty_fails:
  "aggregateEncryptedMetrics k now [] = Inl (Error ''No metrics to aggregate'')"
  by (simp add: aggregateEncryptedMetrics_def)

text \<open>
  C9, as the code has it. The aggregation makes no public-key check: an encrypted
  record carries no key identity, and every non-empty list, whatever produced its
  ciphertexts, is summed homomorphically field by field and the five sums are
  decrypted under the engine's own key pair. The call never fails: it returns a
  result for as many users as the list has entries, and on a list within the range
  of JavaScript numbers its fields are the decrypted sums, divided by the user
  count for the three averages.
\<close>

theorem aggregate_sums_under_own_key:
  "\<exists>r. aggregateEncryptedMetrics k now (first # rest) =
          Inr (r, [homomorphicSum k encryptedMoodScore first rest,
                   homomorphicSum k encryptedSessionCount first rest,
                   homomorphicSum k encryptedEngagementTime first rest,
                   homomorphicSum k encryptedWellnessScore first rest,
                   homomorphicSum k encryptedCrisisEvents first rest]) \<and>
        userCount r = length (first # rest) \<and>
        (withinNumberRange k first rest \<longrightarrow>
           r = \<lparr> userCount = length (first # rest),
                 averageMoodScore =
                   jsDivide (Number_of_bigint (privateKey_decrypt k
                     (homomorphicSum k encryptedMoodScore first rest)))
                     (of_nat (length (first # rest))),
                 totalSessions =
                   Number_of_bigint (privateKey_decrypt k
                     (homomorphicSum k encryptedSessionCount first rest)),
                 averageEngagementTime =
                   jsDivide (Number_of_bigint (privateKey_decrypt k
                     (homomorphicSum k encryptedEngagementTime first rest)))
                     (of_nat (length (first # rest))),
                 averageWellnessScore =
                   jsDivide (Number_of_bigint (privateKey_decrypt k
                     (homomorphicSum k encryptedWellnessScore first rest)))
                     (of_nat (length (first # rest))),
                 totalCrisisEvents =
                   Number_of_bigint (privateKey_decrypt k
                     (homomorphicSum k encryptedCrisisEvents first rest)),
                 aggregationTimestamp = now \<rparr>)"
  by (simp add: aggregate_nonempty del: of_nat_Suc)

lemma mixedKey_sums:
  "homomorphicSum (maskingKeys 1000) encryptedMoodScore (hd mixedKeyMetrics) (tl mixedKeyMetrics) = 2161"
  "homomorphicSum (maskingKeys 1000) encryptedSessionCount (hd mixedKeyMetrics) (tl mixedKeyMetrics) = 3036"
  "homomorphicSum (maskingKeys 1000) encryptedEngagementTime (hd mixedKeyMetrics) (tl mixedKeyMetrics) = 4095"
  "homomorphicSum (maskingKeys 1000) encryptedWellnessScore (hd mixedKeyMetrics) (tl mixedKeyMetrics) = 5182"
  "homomorphicSum (maskingKeys 1000) encryptedCrisisEvents (hd mixedKeyMetrics) (tl mixedKeyMetrics) = 6051"
  by (simp_all add: homomorphicSum_def mixedKeyMetrics_def encryptUserMetrics_def maskingKeys_def
        sampleNonces_def sampleMetrics_def)

lemma mixedKey_numbers:
  "Number_of_bigint 161 = 161" "Number_of_bigint 36 = 36" "Number_of_bigint 95 = 95"
  "Number_of_bigint 182 = 182" "Number_of_bigint 51 = 51"
  "jsDivide 161 2 = 161 / 2" "jsDivide 95 2 = 95 / 2" "jsDivide 182 2 = 91"
proof -
  show "Number_of_bigint 161 = 161" "Number_of_bigint 36 = 36" "Number_of_bigint 95 = 95"
    "Number_of_bigint 182 = 182" "Number_of_bigint 51 = 51"
    using Number_of_bigint_safe [of 161] Number_of_bigint_safe [of 36] Number_of_bigint_safe [of 95]
      Number_of_bigint_safe [of 182] Number_of_bigint_safe [of 51]
    by simp_all
  show "jsDivide 161 2 = 161 / 2"
    using roundDouble_dyadic [of 161 "- 1"] by (simp add: jsDivide_def powr_minus_divide)
  show "jsDivide 95 2 = 95 / 2"
    using roundDouble_dyadic [of 95 "- 1"] by (simp add: jsDivide_def powr_minus_divide)
  show "jsDivide 182 2 = 91"
    using roundDouble_of_int [of 91] by (simp add: jsDivide_def)
qed

lemma mixedKey_result:
  "aggregateEncryptedMetrics (maskingKeys 1000) 0 mixedKeyMetrics =
     Inr (\<lparr> userCount = 2, averageMoodScore = 161 / 2, totalSessions = 36,
             averageEngagementTime = 95 / 2, averageWellnessScore = 91,
             totalCrisisEvents = 51, aggregationTimestamp = 0 \<rparr>,
          [2161, 3036, 4095, 5182, 6051])"
proof -
  have m: "mixedKeyMetrics = hd mixedKeyMetrics # tl mixedKeyMetrics"
    by (simp add: mixedKeyMetrics_def)
  have d: "privateKey_decrypt (maskingKeys 1000) 2161 = 161"
    "privateKey_decrypt (maskingKeys 1000) 3036 = 36"
    "privateKey_decrypt (maskingKeys 1000) 4095 = 95"
    "privateKey_decrypt (maskingKeys 1000) 5182 = 182"
    "privateKey_decrypt (maskingKeys 1000) 6051 = 51"
    by (simp_all add: maskingKeys_def)
  have two: "(of_nat (Suc (length (tl mixedKeyMetrics))) :: real) = 2"
    "Suc (length (tl mixedKeyMetrics)) = 2"
    by (simp_all add: mixedKeyMetrics_def)
  show ?thesis
    by (subst m) (simp only: aggregate_nonempty mixedKey_sums d two of_nat_numeral mixedKey_numbers)
qed

theorem aggregate_sums_under_own_key_witness:
  "withinNumberRange (maskingKeys 1000) (hd mixedKeyMetrics) (tl mixedKeyMetrics) \<and>
   aggregateEncryptedMetrics (maskingKeys 1000) 0 mixedKeyMetrics =
     Inr (\<lparr> userCount = 2, averageMoodScore = 161 / 2, totalSessions = 36,
             averageEngagementTime = 95 / 2, averageWellnessScore = 91,
             totalCrisisEvents = 51, aggregationTimestamp = 0 \<rparr>,
          [2161, 3036, 4095, 5182, 6051])"
proof -
  have m: "mixedKeyMetrics = hd mixedKeyMetrics # tl mixedKeyMetrics"
    by (simp add: mixedKeyMetrics_def)
  have l: "length mixedKeyMetrics = 2" by (simp add: mixedKeyMetrics_def)
  have d: "privateKey_decrypt (maskingKeys 1000) 2161 = 161"
    "privateKey_decrypt (maskingKeys 1000) 3036 = 36"
    "privateKey_decrypt (maskingKeys 1000) 4095 = 95"
    "privateKey_decrypt (maskingKeys 1000) 5182 = 182"
    "privateKey_decrypt (maskingKeys 1000) 6051 = 51"
    by (simp_all add: maskingKeys_def)
  have w: "withinNumberRange (maskingKeys 1000) (hd mixedKeyMetrics) (tl mixedKeyMetrics)"
    unfolding withinNumberRange_def m [symmetric] l
    by (simp add: mixedKey_sums d finiteAsNumber_def)
  from aggregate_sums_under_own_key
         [of "maskingKeys 1000" 0 "hd mixedKeyMetrics" "tl mixedKeyMetrics"] w
  have "aggregateEncryptedMetrics (maskingKeys 1000) 0 mixedKeyMetrics =
     Inr (\<lparr> userCount = 2, averageMoodScore = 161 / 2, totalSessions = 36,
             averageEngagementTime = 95 / 2, averageWellnessScore = 91,
             totalCrisisEvents = 51, aggregationTimestamp = 0 \<rparr>,
          [2161, 3036, 4095, 5182, 6051])"
    unfolding m [symmetric] mixedKey_sums d l
    by (auto simp: mixedKey_numbers)
  with w show ?thesis by simp
qed

text \<open>
  The claim of C9 fails on two entries encrypted under different key pairs: the
  aggregation returns a result, and its mood average is 161 / 2, not the average
  70 of the plaintext mood scores 60 and 80.
\<close>

theorem aggregate_mixed_keys_counterexample:
  "(case aggregateEncryptedMetrics (maskingKeys 1000) 0 mixedKeyMetrics of
      Inl e \<Rightarrow> False
    | Inr (r, calls) \<Rightarrow> averageMoodScore r = 161 / 2 \<and> averageMoodScore r \<noteq> (60 + 80) / 2)"
  by (simp add: mixedKey_result)

section \<open>Properties of the differentially private release\<close>

lemma privacyBudgetUsed_release:
  "privacyBudgetUsed (generateDifferentialPrivateInsights agg (requestedEpsilon c) (noiseDraws c) now) =
     effectiveEpsilon c"
  by (simp add: generateDifferentialPrivateInsights_def effectiveEpsilon_def Let_def)

text \<open>
  C2, as the code has it. The release keeps no privacy budget and has no cap: every
  call of a sequence returns its insights, each reports as budget used exactly the
  epsilon it was called with, and so the cumulative epsilon reported over the
  sequence is the sum of the requested epsilons.
\<close>

theorem release_reports_requested_epsilons:
  "length (releaseAll agg now calls) = length calls \<and>
   map privacyBudgetUsed (releaseAll agg now calls) = map effectiveEpsilon calls \<and>
   epsilonSpent (releaseAll agg now calls) = sum_list (map effectiveEpsilon calls)"
  by (simp add: releaseAll_def epsilonSpent_def privacyBudgetUsed_release comp_def)

text \<open>
  The claim of C2 fails in Scenario D: against a cap of 1.0, two releases of
  epsilon 0.6 both return, and the epsilon spent is 1.2.
\<close>

theorem release_exceeds_cap_counterexample:
  "length (releaseAll scenarioB_aggregate 0 [scenarioD_call, scenarioD_call]) = 2 \<and>
   epsilonSpent (releaseAll scenarioB_aggregate 0 [scenarioD_call, scenarioD_call]) = 1.2 \<and>
   \<not> epsilonSpent (releaseAll scenarioB_aggregate 0 [scenarioD_call, scenarioD_call]) \<le> 1.0"
proof -
  have "epsilonSpent (releaseAll scenarioB_aggregate 0 [scenarioD_call, scenarioD_call]) =
          effectiveEpsilon scenarioD_call + effectiveEpsilon scenarioD_call"
    by (simp add: releaseAll_def epsilonSpent_def privacyBudgetUsed_release)
  moreover have "effectiveEpsilon scenarioD_call = 0.6"
    by (simp add: effectiveEpsilon_def scenarioD_call_def)
  ultimately show ?thesis
    by (simp add: releaseAll_def)
qed

section \<open>Properties of the proof service\<close>

text \<open>
  C6, as the code has it. \<open>verifyProof\<close> never throws: the \<open>catch\<close> turns the missing
  verification key of an unknown circuit id, and any error the verifier throws,
  into the result \<open>false\<close>, just as an invalid proof gives \<open>false\<close>. For a known
  circuit id the result is the verifier's answer.
\<close>

theorem verifyProof_never_throws:
  "verifyProof ext svc circuitName prf signals =
     Inr (case verificationKeys svc circuitName of
            None \<Rightarrow> False
          | Some vKey \<Rightarrow>
              (case groth16_verify ext vKey signals prf of Inl e \<Rightarrow> False | Inr b \<Rightarrow> b))"
  by (simp add: verifyProof_def split: option.splits sum.splits)

text \<open>
  The claim of C6 fails on a circuit id with no verification key: the call does
  not fail, it returns \<open>false\<close>.
\<close>

theorem verifyProof_unknown_circuit_counterexample:
  "verificationKeys sampleService ''unknown_circuit'' = None \<and>
   verifyProof (sampleExternals True) sampleService ''unknown_circuit'' sampleProof [''1''] = Inr False"
  by (simp add: verifyProof_def sampleService_def)

lemma Groth16Proof_eta: "\<lparr> pi_a = pi_a x, pi_b = pi_b x, pi_c = pi_c x \<rparr> = x"
  by (cases x) simp

text \<open>
  The wellness path verifies before returning: a proof generated on a cache miss
  has passed \<open>verifyProof\<close>, and a fresh proof that fails it is not returned.
\<close>

lemma wellness_fresh_proof_is_verified:
  assumes "proofCache svc (generateCacheKey ext ''wellness_milestone'' priv pub) = None"
    and "generateWellnessMilestoneProof ext now svc priv pub = (Inr p, svc')"
  shows "verifyProof ext svc ''wellness_milestone'' (zkProof p) (publicSignals p) = Inr True \<and> isValid p"
  using assms
  by (auto simp: generateWellnessMilestoneProof_def Let_def Groth16Proof_eta
           split: option.splits sum.splits prod.splits if_splits error.splits)

lemma wellness_rejected:
  "generateWellnessMilestoneProof (sampleExternals False) 1700000000 sampleService
       (scenarioA_private 85) (scenarioA_public 80) =
     (Inl (Error ''Failed to generate wellness milestone proof: Generated proof is invalid''),
      sampleService)"
  by (simp add: generateWellnessMilestoneProof_def verifyProof_def sampleService_def sampleExternals_def
        sampleProof_def signalAt_def parseInt_def digitOf_def Let_def)

text \<open>
  The peer-support path returns every proof the prover produces: the field
  \<open>isValid\<close> only records what \<open>verifyProof\<close> said about it.
\<close>

lemma generatePeerSupportProof_records_isValid:
  assumes "generatePeerSupportProof ext now svc supporterData requirements = Inr p"
  shows "verifyProof ext svc ''peer_support'' (peerZkProof p) (peerPublicSignals p) =
           Inr (peerIsValid p)"
  using assms
  by (auto simp: generatePeerSupportProof_def Let_def Groth16Proof_eta
           split: option.splits sum.splits prod.splits error.splits)

text \<open>
  C1. The peer-support path returns a proof that failed self-verification: with a
  verifier that rejects the fresh proof, \<open>generatePeerSupportProof\<close> does not abort
  but returns the proof, with \<open>isValid\<close> false.
\<close>

theorem generatePeerSupportProof_returns_unverified_proof:
  "verifyProof (sampleExternals False) sampleService ''peer_support'' sampleProof [''1'', ''4'', ''601'']
     = Inr False \<and>
   generatePeerSupportProof (sampleExternals False) 1700000000 sampleService
       sampleSupporter sampleRequirements =
     Inr \<lparr> peerZkProof = sampleProof, peerPublicSignals = [''1'', ''4'', ''601''],
           canProvideSupport = True, supportQualityScore = Some 4,
           anonymousCredential = Some ''601'', peerIsValid = False,
           peerTimestamp = 1700000000 \<rparr>"
  by (simp add: generatePeerSupportProof_def verifyProof_def sampleService_def sampleExternals_def
        sampleProof_def signalAt_def parseInt_def digitOf_def Let_def)

lemma wellness_failure_keeps_service:
  "generateWellnessMilestoneProof ext now svc priv pub = (Inl e, svc') \<Longrightarrow> svc' = svc"
  by (auto simp: generateWellnessMilestoneProof_def Let_def
           split: option.splits sum.splits prod.splits if_splits error.splits)

lemma processRequest_id:
  "resultRequestId (fst (processRequest ext now svc req)) = requestId req"
  by (simp add: processRequest_def split: BatchRequestBody.splits prod.splits sum.splits error.splits)

lemma processRequest_shape:
  "outcomeShape (fst (processRequest ext now svc req))"
  by (simp add: processRequest_def outcomeShape_def
        split: BatchRequestBody.splits prod.splits sum.splits error.splits)

lemma processRequest_failure_keeps_service:
  assumes "\<not> success (fst (processRequest ext now svc req))"
  shows "snd (processRequest ext now svc req) = svc"
proof (cases "requestBody req")
  case (WellnessMilestoneRequest priv pub)
  obtain r svc' where g: "generateWellnessMilestoneProof ext now svc priv pub = (r, svc')"
    by (cases "generateWellnessMilestoneProof ext now svc priv pub")
  show ?thesis
  proof (cases r)
    case (Inl e)
    with g have "svc' = svc" by (auto dest: wellness_failure_keeps_service)
    with g Inl WellnessMilestoneRequest show ?thesis
      by (simp add: processRequest_def split: error.splits)
  next
    case (Inr p)
    with g WellnessMilestoneRequest assms show ?thesis
      by (simp add: processRequest_def)
  qed
next
  case (PeerSupportRequest priv reqs)
  then show ?thesis
    by (cases "generatePeerSupportProof ext now svc priv reqs")
       (simp_all add: processRequest_def split: error.splits)
next
  case (OtherRequest t)
  then show ?thesis by (simp add: processRequest_def)
qed

lemma generateBatchProofs_Cons:
  "generateBatchProofs ext now svc (r # rs) =
     (fst (processRequest ext now svc r) #
        batchResults ext now (snd (processRequest ext now svc r)) rs,
      serviceAfter ext now (snd (processRequest ext now svc r)) rs)"
  by (simp add: batchResults_def serviceAfter_def case_prod_unfold)

lemma batchResults_simps:
  "batchResults ext now svc [] = []"
  "batchResults ext now svc (r # rs) =
     fst (processRequest ext now svc r) #
       batchResults ext now (snd (processRequest ext now svc r)) rs"
  by (simp_all add: batchResults_def case_prod_unfold)

lemma serviceAfter_simps:
  "serviceAfter ext now svc [] = svc"
  "serviceAfter ext now svc (r # rs) =
     serviceAfter ext now (snd (processRequest ext now svc r)) rs"
  by (simp_all add: serviceAfter_def case_prod_unfold)

lemma batchResults_append:
  "batchResults ext now svc (xs @ ys) =
     batchResults ext now svc xs @ batchResults ext now (serviceAfter ext now svc xs) ys"
  by (induction xs arbitrary: svc) (simp_all add: batchResults_simps serviceAfter_simps)

lemma batch_ids:
  "map resultRequestId (batchResults ext now svc requests) = map requestId requests"
  by (induction requests arbitrary: svc) (simp_all add: batchResults_simps processRequest_id)

lemma batch_shapes:
  "list_all outcomeShape (batchResults ext now svc requests)"
  by (induction requests arbitrary: svc) (simp_all add: batchResults_simps processRequest_shape)

lemma batch_own_outcomes:
  "list_all2 (\<lambda>req res. \<exists>svc'. res = fst (processRequest ext now svc' req))
     requests (batchResults ext now svc requests)"
proof (induction requests arbitrary: svc)
  case Nil
  show ?case by (simp add: batchResults_simps)
next
  case (Cons r rs)
  have "\<exists>svc'. fst (processRequest ext now svc r) = fst (processRequest ext now svc' r)"
    by (rule exI [of _ svc]) (rule refl)
  with Cons.IH [of "snd (processRequest ext now svc r)"] show ?case
    by (simp add: batchResults_simps)
qed

lemma batch_failed_sibling:
  assumes "\<not> success (fst (processRequest ext now (serviceAfter ext now svc pre) req))"
  shows "batchResults ext now svc (pre @ req # post) =
           batchResults ext now svc pre @
           fst (processRequest ext now (serviceAfter ext now svc pre) req) #
           batchResults ext now (serviceAfter ext now svc pre) post"
proof -
  have "snd (processRequest ext now (serviceAfter ext now svc pre) req) = serviceAfter ext now svc pre"
    using assms by (rule processRequest_failure_keeps_service)
  then show ?thesis
    by (simp add: batchResults_append batchResults_simps)
qed


lemma processRequest_captures_message:
  "generateWellnessMilestoneProof ext now svc priv pub = (Inl (Error m), svc') \<Longrightarrow>
   requestBody req = WellnessMilestoneRequest priv pub \<Longrightarrow>
   resultError (fst (processRequest ext now svc req)) = Some m"
  "generatePeerSupportProof ext now svc supporter reqs = Inl (Error m) \<Longrightarrow>
   requestBody req = PeerSupportRequest supporter reqs \<Longrightarrow>
   resultError (fst (processRequest ext now svc req)) = Some m"
  "requestBody req = OtherRequest t \<Longrightarrow>
   resultError (fst (processRequest ext now svc req)) = Some (''Unknown proof type: '' @ t)"
  by (simp_all add: processRequest_def)

lemma processRequest_unknown_type_fails:
  "requestBody req = OtherRequest t \<Longrightarrow> \<not> success (fst (processRequest ext now svc req))"
  by (simp add: processRequest_def)

lemma batchResults_length:
  "length (batchResults ext now svc requests) = length requests"
  using batch_ids [of ext now svc requests] by (metis length_map)

lemma batchResults_nth:
  "batchResults ext now svc (pre @ req # post) ! length pre =
     fst (processRequest ext now (serviceAfter ext now svc pre) req)"
  by (simp add: batchResults_append batchResults_simps nth_append batchResults_length)

lemma processRequest_wellness:
  assumes "requestBody req = WellnessMilestoneRequest priv pub"
  shows "fst (generateWellnessMilestoneProof ext now svc priv pub) = Inr p \<Longrightarrow>
         fst (processRequest ext now svc req) =
           \<lparr> resultRequestId = requestId req, success = True,
             resultProof = Some (WellnessResult p), resultError = None \<rparr>"
    and "fst (generateWellnessMilestoneProof ext now svc priv pub) = Inl (Error m) \<Longrightarrow>
         fst (processRequest ext now svc req) =
           \<lparr> resultRequestId = requestId req, success = False,
             resultProof = None, resultError = Some m \<rparr>"
  using assms
  by (cases "generateWellnessMilestoneProof ext now svc priv pub"; simp add: processRequest_def)+

lemma processRequest_peer:
  assumes "requestBody req = PeerSupportRequest supporter reqs"
  shows "generatePeerSupportProof ext now svc supporter reqs = Inr p \<Longrightarrow>
         fst (processRequest ext now svc req) =
           \<lparr> resultRequestId = requestId req, success = True,
             resultProof = Some (PeerSupportResult p), resultError = None \<rparr>"
    and "generatePeerSupportProof ext now svc supporter reqs = Inl (Error m) \<Longrightarrow>
         fst (processRequest ext now svc req) =
           \<lparr> resultRequestId = requestId req, success = False,
             resultProof = None, resultError = Some m \<rparr>"
  using assms by (simp_all add: processRequest_def)

lemma processRequest_other:
  "requestBody req = OtherRequest t \<Longrightarrow>
   fst (processRequest ext now svc req) =
     \<lparr> resultRequestId = requestId req, success = False,
       resultProof = None, resultError = Some (''Unknown proof type: '' @ t) \<rparr>"
  by (simp add: processRequest_def)

text \<open>
  C10. For every list of batch requests the results come in request order, one
  per request, and carry the requests' correlation ids. The result of each request
  is its own outcome on the service as its predecessors left it: a request whose
  generation returns a proof has a successful result holding exactly that proof
  and no error, a request whose generation throws has a failed result holding
  exactly the thrown message and no proof, and a request of an unknown type has a
  failed result naming the type. A failed request leaves the service untouched:
  the results of its siblings are those of the batch without it.
\<close>

theorem generateBatchProofs_outcomes:
  "map resultRequestId (batchResults ext now svc requests) = map requestId requests \<and>
   length (batchResults ext now svc requests) = length requests \<and>
   (requestBody req = WellnessMilestoneRequest priv pub \<and>
    fst (generateWellnessMilestoneProof ext now (serviceAfter ext now svc pre) priv pub) = Inr wp \<longrightarrow>
      batchResults ext now svc (pre @ req # post) ! length pre =
        \<lparr> resultRequestId = requestId req, success = True,
          resultProof = Some (WellnessResult wp), resultError = None \<rparr>) \<and>
   (requestBody req = WellnessMilestoneRequest priv pub \<and>
    fst (generateWellnessMilestoneProof ext now (serviceAfter ext now svc pre) priv pub) =
      Inl (Error m) \<longrightarrow>
      batchResults ext now svc (pre @ req # post) ! length pre =
        \<lparr> resultRequestId = requestId req, success = False,
          resultProof = None, resultError = Some m \<rparr>) \<and>
   (requestBody req = PeerSupportRequest supporter reqs \<and>
    generatePeerSupportProof ext now (serviceAfter ext now svc pre) supporter reqs = Inr pp \<longrightarrow>
      batchResults ext now svc (pre @ req # post) ! length pre =
        \<lparr> resultRequestId = requestId req, success = True,
          resultProof = Some (PeerSupportResult pp), resultError = None \<rparr>) \<and>
   (requestBody req = PeerSupportRequest supporter reqs \<and>
    generatePeerSupportProof ext now (serviceAfter ext now svc pre) supporter reqs =
      Inl (Error m) \<longrightarrow>
      batchResults ext now svc (pre @ req # post) ! length pre =
        \<lparr> resultRequestId = requestId req, success = False,
          resultProof = None, resultError = Some m \<rparr>) \<and>
   (requestBody req = OtherRequest t \<longrightarrow>
      batchResults ext now svc (pre @ req # post) ! length pre =
        \<lparr> resultRequestId = requestId req, success = False,
          resultProof = None, resultError = Some (''Unknown proof type: '' @ t) \<rparr>) \<and>
   (\<not> success (batchResults ext now svc (pre @ req # post) ! length pre) \<longrightarrow>
      batchResults ext now svc (pre @ req # post) =
        take (length pre) (batchResults ext now svc (pre @ post)) @
        batchResults ext now svc (pre @ req # post) ! length pre #
        drop (length pre) (batchResults ext now svc (pre @ post)))"
proof (intro conjI impI)
  show "map resultRequestId (batchResults ext now svc requests) = map requestId requests"
    by (rule batch_ids)
  show "length (batchResults ext now svc requests) = length requests"
    by (rule batchResults_length)
next
  assume a: "requestBody req = WellnessMilestoneRequest priv pub \<and>
    fst (generateWellnessMilestoneProof ext now (serviceAfter ext now svc pre) priv pub) = Inr wp"
  show "batchResults ext now svc (pre @ req # post) ! length pre =
        \<lparr> resultRequestId = requestId req, success = True,
          resultProof = Some (WellnessResult wp), resultError = None \<rparr>"
    unfolding batchResults_nth
    by (rule processRequest_wellness(1) [OF conjunct1 [OF a] conjunct2 [OF a]])
next
  assume a: "requestBody req = WellnessMilestoneRequest priv pub \<and>
    fst (generateWellnessMilestoneProof ext now (serviceAfter ext now svc pre) priv pub) =
      Inl (Error m)"
  show "batchResults ext now svc (pre @ req # post) ! length pre =
        \<lparr> resultRequestId = requestId req, success = False,
          resultProof = None, resultError = Some m \<rparr>"
    unfolding batchResults_nth
    by (rule processRequest_wellness(2) [OF conjunct1 [OF a] conjunct2 [OF a]])
next
  assume a: "requestBody req = PeerSupportRequest supporter reqs \<and>
    generatePeerSupportProof ext now (serviceAfter ext now svc pre) supporter reqs = Inr pp"
  show "batchResults ext now svc (pre @ req # post) ! length pre =
        \<lparr> resultRequestId = requestId req, success = True,
          resultProof = Some (PeerSupportResult pp), resultError = None \<rparr>"
    unfolding batchResults_nth
    by (rule processRequest_peer(1) [OF conjunct1 [OF a] conjunct2 [OF a]])
next
  assume a: "requestBody req = PeerSupportRequest supporter reqs \<and>
    generatePeerSupportProof ext now (serviceAfter ext now svc pre) supporter reqs =
      Inl (Error m)"
  show "batchResults ext now svc (pre @ req # post) ! length pre =
        \<lparr> resultRequestId = requestId req, success = False,
          resultProof = None, resultError = Some m \<rparr>"
    unfolding batchResults_nth
    by (rule processRequest_peer(2) [OF conjunct1 [OF a] conjunct2 [OF a]])
next
  assume a: "requestBody req = OtherRequest t"
  show "batchResults ext now svc (pre @ req # post) ! length pre =
        \<lparr> resultRequestId = requestId req, success = False,
          resultProof = None, resultError = Some (''Unknown proof type: '' @ t) \<rparr>"
    unfolding batchResults_nth by (rule processRequest_other [OF a])
next
  assume "\<not> success (batchResults ext now svc (pre @ req # post) ! length pre)"
  then have failed: "\<not> success (fst (processRequest ext now (serviceAfter ext now svc pre) req))"
    by (simp add: batchResults_nth)
  show "batchResults ext now svc (pre @ req # post) =
        take (length pre) (batchResults ext now svc (pre @ post)) @
        batchResults ext now svc (pre @ req # post) ! length pre #
        drop (length pre) (batchResults ext now svc (pre @ post))"
    unfolding batchResults_nth
    using batch_failed_sibling [OF failed, of post]
    by (simp add: batchResults_append batchResults_length)
qed

lemma sample_generation:
  "fst (generateWellnessMilestoneProof (sampleExternals True) 0 sampleService
         (scenarioA_private 85) (scenarioA_public 80)) = Inr sampleWellnessZKProof"
  "generatePeerSupportProof (sampleExternals True) 0
     (serviceAfter (sampleExternals True) 0 sampleService (take 2 sampleBatch))
     sampleSupporter sampleRequirements = Inr samplePeerSupportZKProof"
  by (simp_all add: generateWellnessMilestoneProof_def generatePeerSupportProof_def verifyProof_def
        sampleService_def sampleExternals_def sampleProof_def signalAt_def parseInt_def digitOf_def
        Let_def sampleWellnessZKProof_def samplePeerSupportZKProof_def sampleBatch_def
        serviceAfter_simps processRequest_def)

theorem generateBatchProofs_outcomes_witness:
  "batchResults (sampleExternals True) 0 sampleService sampleBatch ! 0 =
     \<lparr> resultRequestId = ''r1'', success = True,
       resultProof = Some (WellnessResult sampleWellnessZKProof), resultError = None \<rparr> \<and>
   batchResults (sampleExternals True) 0 sampleService sampleBatch ! 1 =
     \<lparr> resultRequestId = ''r2'', success = False,
       resultProof = None, resultError = Some ''Unknown proof type: mood_privacy'' \<rparr> \<and>
   batchResults (sampleExternals True) 0 sampleService sampleBatch ! 2 =
     \<lparr> resultRequestId = ''r3'', success = True,
       resultProof = Some (PeerSupportResult samplePeerSupportZKProof), resultError = None \<rparr> \<and>
   length (batchResults (sampleExternals True) 0 sampleService sampleBatch) = 3"
proof -
  let ?E = "sampleExternals True"
  let ?r1 = "\<lparr> requestId = ''r1'',
        requestBody = WellnessMilestoneRequest (scenarioA_private 85) (scenarioA_public 80) \<rparr>"
  let ?r2 = "\<lparr> requestId = ''r2'', requestBody = OtherRequest ''mood_privacy'' \<rparr>"
  let ?r3 = "\<lparr> requestId = ''r3'', requestBody = PeerSupportRequest sampleSupporter sampleRequirements \<rparr>"
  have b: "sampleBatch = [] @ ?r1 # [?r2, ?r3]" "sampleBatch = [?r1] @ ?r2 # [?r3]"
    "sampleBatch = [?r1, ?r2] @ ?r3 # []" "take 2 sampleBatch = [?r1, ?r2]"
    by (simp_all add: sampleBatch_def)
  have w: "fst (generateWellnessMilestoneProof ?E 0 (serviceAfter ?E 0 sampleService [])
             (scenarioA_private 85) (scenarioA_public 80)) = Inr sampleWellnessZKProof"
    by (simp add: serviceAfter_simps sample_generation(1))
  have p: "generatePeerSupportProof ?E 0 (serviceAfter ?E 0 sampleService [?r1, ?r2])
             sampleSupporter sampleRequirements = Inr samplePeerSupportZKProof"
    using sample_generation(2) by (simp only: b(4))
  have "batchResults ?E 0 sampleService ([] @ ?r1 # [?r2, ?r3]) ! length ([] :: BatchProofRequest list) =
     \<lparr> resultRequestId = ''r1'', success = True,
       resultProof = Some (WellnessResult sampleWellnessZKProof), resultError = None \<rparr>"
    using generateBatchProofs_outcomes
      [of ?E 0 sampleService sampleBatch ?r1 "scenarioA_private 85" "scenarioA_public 80" "[]"
          sampleWellnessZKProof "[?r2, ?r3]"] w
    by simp
  then have r1: "batchResults ?E 0 sampleService sampleBatch ! 0 =
     \<lparr> resultRequestId = ''r1'', success = True,
       resultProof = Some (WellnessResult sampleWellnessZKProof), resultError = None \<rparr>"
    by (simp add: b(1))
  have "batchResults ?E 0 sampleService ([?r1] @ ?r2 # [?r3]) ! length [?r1] =
     \<lparr> resultRequestId = ''r2'', success = False,
       resultProof = None, resultError = Some (''Unknown proof type: '' @ ''mood_privacy'') \<rparr>"
    using generateBatchProofs_outcomes
      [where ext = ?E and now = 0 and svc = sampleService and req = ?r2 and pre = "[?r1]"
         and post = "[?r3]" and t = "''mood_privacy''"]
    by simp
  then have r2: "batchResults ?E 0 sampleService sampleBatch ! 1 =
     \<lparr> resultRequestId = ''r2'', success = False,
       resultProof = None, resultError = Some ''Unknown proof type: mood_privacy'' \<rparr>"
    by (simp add: b(2))
  have "batchResults ?E 0 sampleService ([?r1, ?r2] @ ?r3 # []) ! length [?r1, ?r2] =
     \<lparr> resultRequestId = ''r3'', success = True,
       resultProof = Some (PeerSupportResult samplePeerSupportZKProof), resultError = None \<rparr>"
    using generateBatchProofs_outcomes
      [where ext = ?E and now = 0 and svc = sampleService and req = ?r3 and pre = "[?r1, ?r2]"
         and post = "[]" and supporter = sampleSupporter and reqs = sampleRequirements
         and pp = samplePeerSupportZKProof] p
    by simp
  then have r3: "batchResults ?E 0 sampleService sampleBatch ! 2 =
     \<lparr> resultRequestId = ''r3'', success = True,
       resultProof = Some (PeerSupportResult samplePeerSupportZKProof), resultError = None \<rparr>"
    by (simp add: b(3) numeral_2_eq_2)
  have len: "length (batchResults ?E 0 sampleService sampleBatch) = 3"
    using generateBatchProofs_outcomes [where ext = ?E and now = 0 and svc = sampleService
        and requests = sampleBatch]
    by (simp add: sampleBatch_def)
  from r1 r2 r3 len show ?thesis by simp
qed

end
